theory Spec2Isabelle
  imports Main "HOL-Library.Word"
begin

unbundle bit_operations_syntax

section \<open>Data model\<close>

text \<open>
  Go strings are byte sequences: \<^typ>\<open>string\<close> (a list of 8-bit characters).
  A \<^verbatim>\<open>[]byte\<close> is a list of 8-bit words; the nil slice and the empty slice are both
  the empty list. \<^verbatim>\<open>common.Address\<close> is \<^verbatim>\<open>[20]byte\<close>: a byte list that
  \<open>common_BytesToAddress\<close> makes 20 long. \<^verbatim>\<open>sdk.AccAddress\<close> is \<^verbatim>\<open>[]byte\<close>.
\<close>

type_synonym byte = "8 word"

text \<open>
  A Go \<^verbatim>\<open>error\<close> value, \<^verbatim>\<open>nil\<close> being \<open>None\<close> of \<open>error option\<close>.
  \<open>Errorf\<close> is the error \<^verbatim>\<open>fmt.Errorf\<close> builds in api.go, with its message.
  The others are the errors of the hex and bech32 libraries, one constructor for each
  place that raises one, carrying the values its message prints.
\<close>

datatype error =
    Errorf string
  | InvalidByteError char
  | ErrLength
  | ErrEmptyAddress
  | ErrBech32EmptyAddress
  | ErrInvalidLength nat
  | ErrInvalidCharacter char
  | ErrMixedCase
  | ErrInvalidSeparatorIndex int
  | ErrNonCharsetChar char
  | ErrInvalidDataByte byte
  | ErrChecksumFailed
  | ErrInvalidBitGroups
  | ErrInvalidIncompleteGroup
  | ErrInvalidPrefix string string
  | ErrUnknownAddress

section \<open>rpc/namespaces/utils/api.go\<close>

text \<open>
  What api.go imports: the functions of go-ethereum's \<^verbatim>\<open>common\<close> package and of
  cosmos-sdk's \<^verbatim>\<open>types\<close> package that \<^verbatim>\<open>ConvertAddress\<close> calls, and the constant
  \<^verbatim>\<open>types.Bech32PrefixAccAddr\<close> of this repository's \<^verbatim>\<open>types\<close> package.
  \<^verbatim>\<open>Address.Bytes()\<close> is the slice \<^verbatim>\<open>a[:]\<close> of the array, and
  \<^verbatim>\<open>sdk.AccAddress(addrBytes)\<close> is a type conversion: both are the identity on byte
  lists.
\<close>

record collaborators =
  IsHexAddress :: "string \<Rightarrow> bool"
  HexToAddress :: "string \<Rightarrow> byte list"
  AccAddressString :: "byte list \<Rightarrow> string"
  Bech32PrefixAccAddr :: string
  AccAddressFromBech32 :: "string \<Rightarrow> byte list \<times> error option"
  BytesToAddress :: "byte list \<Rightarrow> byte list"
  AddressString :: "byte list \<Rightarrow> string"

text \<open>
  \<^verbatim>\<open>strings.HasPrefix(s, prefix)\<close>:
  \<^verbatim>\<open>len(s) >= len(prefix) && s[0:len(prefix)] == prefix\<close>.
\<close>

definition HasPrefix :: "string \<Rightarrow> string \<Rightarrow> bool" where
  "HasPrefix s pre \<longleftrightarrow> length s \<ge> length pre \<and> take (length pre) s = pre"

text \<open>
  \<^verbatim>\<open>
  func (a *API) ConvertAddress(address string) (string, error) {
      switch {
      case common.IsHexAddress(address):
          addrBytes := common.HexToAddress(address).Bytes()
          convertedAddr := sdk.AccAddress(addrBytes)
          return convertedAddr.String(), nil
      case strings.HasPrefix(address, types.Bech32PrefixAccAddr):
          addrBytes, _ := sdk.AccAddressFromBech32(address)
          convertedAddr := common.BytesToAddress(addrBytes)
          return convertedAddr.String(), nil
      default:
          return "", fmt.Errorf("expected a valid hex or bech32 address")
      }
  }
  \<close>
  The receiver is a pointer to the empty struct \<^verbatim>\<open>API\<close> and is not read. The result
  is Go's pair: the string, and the error or \<open>None\<close> for \<^verbatim>\<open>nil\<close>.
\<close>

definition ConvertAddress :: "collaborators \<Rightarrow> string \<Rightarrow> string \<times> error option" where
  "ConvertAddress L address =
     (if IsHexAddress L address then
        (let addrBytes = HexToAddress L address;
             convertedAddr = addrBytes
         in (AccAddressString L convertedAddr, None))
      else if HasPrefix address (Bech32PrefixAccAddr L) then
        (let (addrBytes, _) = AccAddressFromBech32 L address;
             convertedAddr = BytesToAddress L addrBytes
         in (AddressString L convertedAddr, None))
      else
        ([], Some (Errorf ''expected a valid hex or bech32 address'')))"

text \<open>Which case of the \<^verbatim>\<open>switch\<close> runs: the cases are tried in the order written.\<close>

datatype branch = HexCase | Bech32Case | DefaultCase

definition case_taken :: "collaborators \<Rightarrow> string \<Rightarrow> branch" where
  "case_taken L address =
     (if IsHexAddress L address then HexCase
      else if HasPrefix address (Bech32PrefixAccAddr L) then Bech32Case
      else DefaultCase)"

section \<open>go-ethereum: common/bytes.go, common/types.go, encoding/hex\<close>

text \<open>
  \<^verbatim>\<open>
  func has0xPrefix(str string) bool {
      return len(str) >= 2 && str[0] == '0' && (str[1] == 'x' || str[1] == 'X')
  }
  \<close>
\<close>

fun has0xPrefix :: "string \<Rightarrow> bool" where
  "has0xPrefix (c0 # c1 # _) \<longleftrightarrow> c0 = CHR ''0'' \<and> (c1 = CHR ''x'' \<or> c1 = CHR ''X'')"
| "has0xPrefix _ \<longleftrightarrow> False"

text \<open>
  \<^verbatim>\<open>
  func isHexCharacter(c byte) bool {
      return ('0' <= c && c <= '9') || ('a' <= c && c <= 'f') || ('A' <= c && c <= 'F')
  }
  func isHex(str string) bool {
      if len(str)%2 != 0 { return false }
      for _, c := range []byte(str) {
          if !isHexCharacter(c) { return false }
      }
      return true
  }
  \<close>
  Characters are compared as bytes: \<open>of_char c :: nat\<close> is the byte's value.
\<close>

definition isHexCharacter :: "char \<Rightarrow> bool" where
  "isHexCharacter c \<longleftrightarrow>
     (let n = (of_char c :: nat)
      in (48 \<le> n \<and> n \<le> 57) \<or> (97 \<le> n \<and> n \<le> 102) \<or> (65 \<le> n \<and> n \<le> 70))"

definition isHex :: "string \<Rightarrow> bool" where
  "isHex str \<longleftrightarrow> (if length str mod 2 \<noteq> 0 then False else list_all isHexCharacter str)"

text \<open>
  \<^verbatim>\<open>
  const AddressLength = 20
  func IsHexAddress(s string) bool {
      if has0xPrefix(s) { s = s[2:] }
      return len(s) == 2*AddressLength && isHex(s)
  }
  \<close>
\<close>

definition AddressLength :: nat where
  "AddressLength = 20"

definition common_IsHexAddress :: "string \<Rightarrow> bool" where
  "common_IsHexAddress s =
     (let s = (if has0xPrefix s then drop 2 s else s)
      in length s = 2 * AddressLength \<and> isHex s)"

text \<open>
  \<^verbatim>\<open>encoding/hex\<close>: \<^verbatim>\<open>fromHexChar\<close> gives the value of a hex digit of either
  case; \<^verbatim>\<open>DecodeString\<close> decodes pairs of digits, \<^verbatim>\<open>(a << 4) | b\<close>, and at the
  first character that is no hex digit (or at a single character left over) returns
  the bytes decoded so far with an error.
\<close>

definition fromHexChar :: "char \<Rightarrow> byte option" where
  "fromHexChar c =
     (let n = (of_char c :: nat)
      in if 48 \<le> n \<and> n \<le> 57 then Some (of_nat (n - 48))
         else if 97 \<le> n \<and> n \<le> 102 then Some (of_nat (n - 97 + 10))
         else if 65 \<le> n \<and> n \<le> 70 then Some (of_nat (n - 65 + 10))
         else None)"

fun hex_DecodeString :: "string \<Rightarrow> byte list \<times> error option" where
  "hex_DecodeString (p # q # rest) =
     (case fromHexChar p of
        None \<Rightarrow> ([], Some (InvalidByteError p))
      | Some a \<Rightarrow>
          (case fromHexChar q of
             None \<Rightarrow> ([], Some (InvalidByteError q))
           | Some b \<Rightarrow>
               (let (bs, err) = hex_DecodeString rest
                in ((push_bit 4 a OR b) # bs, err))))"
| "hex_DecodeString [p] =
     ([], Some (if fromHexChar p = None then InvalidByteError p else ErrLength))"
| "hex_DecodeString [] = ([], None)"

text \<open>
  \<^verbatim>\<open>
  func Hex2Bytes(str string) []byte {
      h, _ := hex.DecodeString(str)
      return h
  }
  func FromHex(s string) []byte {
      if has0xPrefix(s) { s = s[2:] }
      if len(s)%2 == 1 { s = "0" + s }
      return Hex2Bytes(s)
  }
  \<close>
\<close>

definition Hex2Bytes :: "string \<Rightarrow> byte list" where
  "Hex2Bytes str = fst (hex_DecodeString str)"

definition FromHex :: "string \<Rightarrow> byte list" where
  "FromHex s =
     (let s = (if has0xPrefix s then drop 2 s else s);
          s = (if length s mod 2 = 1 then CHR ''0'' # s else s)
      in Hex2Bytes s)"

text \<open>
  \<^verbatim>\<open>
  func BytesToAddress(b []byte) Address {
      var a Address
      a.SetBytes(b)
      return a
  }
  func (a *Address) SetBytes(b []byte) {
      if len(b) > len(a) { b = b[len(b)-AddressLength:] }
      copy(a[AddressLength-len(b):], b)
  }
  func HexToAddress(s string) Address { return BytesToAddress(FromHex(s)) }
  \<close>
  The array starts as 20 zero bytes; \<^verbatim>\<open>copy\<close> overwrites its last \<^verbatim>\<open>len(b)\<close>.
\<close>

definition common_BytesToAddress :: "byte list \<Rightarrow> byte list" where
  "common_BytesToAddress b =
     (let b = (if length b > AddressLength then drop (length b - AddressLength) b else b)
      in replicate (AddressLength - length b) 0 @ b)"

definition common_HexToAddress :: "string \<Rightarrow> byte list" where
  "common_HexToAddress s = common_BytesToAddress (FromHex s)"

text \<open>
  \<^verbatim>\<open>hex.Encode\<close>: two characters of \<^verbatim>\<open>"0123456789abcdef"\<close> for each byte,
  \<^verbatim>\<open>hextable[v>>4]\<close> and \<^verbatim>\<open>hextable[v&0x0f]\<close>.
\<close>

definition hextable :: string where
  "hextable = ''0123456789abcdef''"

definition hex_Encode :: "byte list \<Rightarrow> string" where
  "hex_Encode src =
     concat (map (\<lambda>v. [hextable ! unat (drop_bit 4 v), hextable ! unat (v AND 0x0f)]) src)"

text \<open>
  \<^verbatim>\<open>
  func (a Address) hex() []byte {
      var buf [len(a)*2 + 2]byte
      copy(buf[:2], "0x")
      hex.Encode(buf[2:], a[:])
      return buf[:]
  }
  \<close>
\<close>

definition Address_hex :: "byte list \<Rightarrow> string" where
  "Address_hex a = ''0x'' @ hex_Encode a"

subsection \<open>Keccak-256 (golang.org/x/crypto/sha3, NewLegacyKeccak256)\<close>

text \<open>
  The sponge state is 25 lanes of 64 bits, lane \<open>(x, y)\<close> at index \<open>x + 5 * y\<close>.
  \<open>keccakF1600\<close> is the permutation of 24 rounds, each the steps theta, rho and pi,
  chi, iota (the Go function computes the same rounds, unrolled). The rate is 136
  bytes, the domain-separation byte of the legacy hash is \<open>0x01\<close>, the output is the
  first 32 bytes of the state.
\<close>

type_synonym lane = "64 word"

definition RC :: "lane list" where
  "RC = [0x0000000000000001, 0x0000000000008082, 0x800000000000808A, 0x8000000080008000,
         0x000000000000808B, 0x0000000080000001, 0x8000000080008081, 0x8000000000008009,
         0x000000000000008A, 0x0000000000000088, 0x0000000080008009, 0x000000008000000A,
         0x000000008000808B, 0x800000000000008B, 0x8000000000008089, 0x8000000000008003,
         0x8000000000008002, 0x8000000000000080, 0x000000000000800A, 0x800000008000000A,
         0x8000000080008081, 0x8000000000008080, 0x0000000080000001, 0x8000000080008008]"

definition rotc :: "nat list" where
  "rotc = [0, 1, 62, 28, 27,  36, 44, 6, 55, 20,  3, 10, 43, 25, 39,
           41, 45, 15, 21, 8,  18, 2, 61, 56, 14]"

text \<open>\<^verbatim>\<open>bits.RotateLeft64(x, k)\<close>, for \<open>0 \<le> k < 64\<close>: \<^verbatim>\<open>x<<k | x>>(64-k)\<close>.\<close>

definition RotateLeft64 :: "lane \<Rightarrow> nat \<Rightarrow> lane" where
  "RotateLeft64 x k = push_bit k x OR drop_bit (64 - k) x"

definition theta :: "lane list \<Rightarrow> lane list" where
  "theta a =
     (let c = map (\<lambda>x. a ! x XOR a ! (x + 5) XOR a ! (x + 10) XOR a ! (x + 15) XOR a ! (x + 20))
                [0..<5];
          d = map (\<lambda>x. c ! ((x + 4) mod 5) XOR RotateLeft64 (c ! ((x + 1) mod 5)) 1) [0..<5]
      in map (\<lambda>i. a ! i XOR d ! (i mod 5)) [0..<25])"

definition rho_pi :: "lane list \<Rightarrow> lane list" where
  "rho_pi a =
     map (\<lambda>j. let X = j mod 5; Y = j div 5; x = (X + 3 * Y) mod 5; y = X
               in RotateLeft64 (a ! (x + 5 * y)) (rotc ! (x + 5 * y))) [0..<25]"

definition chi :: "lane list \<Rightarrow> lane list" where
  "chi b =
     map (\<lambda>i. let x = i mod 5; y = i div 5
               in b ! i XOR (NOT (b ! ((x + 1) mod 5 + 5 * y)) AND b ! ((x + 2) mod 5 + 5 * y)))
         [0..<25]"

definition iota :: "lane \<Rightarrow> lane list \<Rightarrow> lane list" where
  "iota rc a = a[0 := a ! 0 XOR rc]"

definition keccak_round :: "lane list \<Rightarrow> lane \<Rightarrow> lane list" where
  "keccak_round a rc = iota rc (chi (rho_pi (theta a)))"

definition keccakF1600 :: "lane list \<Rightarrow> lane list" where
  "keccakF1600 a = foldl keccak_round a RC"

text \<open>Lanes are read from and written to bytes in little-endian order.\<close>

definition load64 :: "byte list \<Rightarrow> lane" where
  "load64 bs = foldr (\<lambda>b acc. ucast b OR push_bit 8 acc) bs 0"

definition store64 :: "lane \<Rightarrow> byte list" where
  "store64 w = map (\<lambda>k. ucast (drop_bit (8 * k) w)) [0..<8]"

definition rate :: nat where
  "rate = 136"

definition xorIn :: "lane list \<Rightarrow> byte list \<Rightarrow> lane list" where
  "xorIn a blk =
     map (\<lambda>i. if i < rate div 8 then a ! i XOR load64 (take 8 (drop (8 * i) blk)) else a ! i)
         [0..<25]"

text \<open>
  Padding: the byte \<open>0x01\<close>, zero bytes up to a multiple of the rate, and \<open>0x80\<close>
  xored into the last byte.
\<close>

definition keccak_pad :: "byte list \<Rightarrow> byte list" where
  "keccak_pad msg =
     (let m = msg @ [0x01];
          m = m @ replicate ((rate - length m mod rate) mod rate) 0
      in m[length m - 1 := m ! (length m - 1) XOR 0x80])"

definition Keccak256 :: "byte list \<Rightarrow> byte list" where
  "Keccak256 msg =
     (let m = keccak_pad msg;
          a = foldl (\<lambda>a k. keccakF1600 (xorIn a (take rate (drop (rate * k) m))))
                (replicate 25 0) [0..<length m div rate]
      in concat (map store64 (take 4 a)))"

subsection \<open>Address.String: the EIP-55 checksummed hex form\<close>

text \<open>
  \<^verbatim>\<open>
  func (a *Address) checksumHex() []byte {
      buf := a.hex()
      sha := sha3.NewLegacyKeccak256()
      sha.Write(buf[2:])
      hash := sha.Sum(nil)
      for i := 2; i < len(buf); i++ {
          hashByte := hash[(i-2)/2]
          if i%2 == 0 { hashByte = hashByte >> 4 } else { hashByte &= 0xf }
          if buf[i] > '9' && hashByte > 7 { buf[i] -= 32 }
      }
      return buf[:]
  }
  func (a Address) Hex() string { return string(a.checksumHex()) }
  func (a Address) String() string { return a.Hex() }
  \<close>
\<close>

definition checksumHex :: "byte list \<Rightarrow> string" where
  "checksumHex a =
     (let buf = Address_hex a;
          hash = Keccak256 (map of_char (drop 2 buf))
      in take 2 buf @
         map (\<lambda>i. let hashByte = hash ! ((i - 2) div 2);
                       hashByte = (if i mod 2 = 0 then drop_bit 4 hashByte else hashByte AND 0xf)
                   in if (of_char (buf ! i) :: nat) > 57 \<and> hashByte > 7
                      then char_of ((of_char (buf ! i) :: nat) - 32) else buf ! i)
             [2..<length buf])"

definition Address_String :: "byte list \<Rightarrow> string" where
  "Address_String a = checksumHex a"

section \<open>bech32 (github.com/cosmos/btcutil/bech32, as used by cosmos-sdk)\<close>

definition charset :: string where
  "charset = ''qpzry9x8gf2tvdw0s3jn54khce6mua7l''"

definition gen :: "int list" where
  "gen = [0x3b6a57b2, 0x26508e6d, 0x1ea119fa, 0x3d4233dd, 0x2a1462b3]"

text \<open>
  \<^verbatim>\<open>
  func bech32Polymod(values []int) int {
      chk := 1
      for _, v := range values {
          b := chk >> 25
          chk = (chk&0x1ffffff)<<5 ^ v
          for i := 0; i < 5; i++ {
              if (b>>uint(i))&1 == 1 { chk ^= gen[i] }
          }
      }
      return chk
  }
  \<close>
  Go's \<^verbatim>\<open>int\<close> is modelled by \<^typ>\<open>int\<close>: the values are bytes and \<open>chk\<close> stays
  below \<open>2 ^ 30\<close>, so nothing overflows.
\<close>

definition polymod_step :: "int \<Rightarrow> int \<Rightarrow> int" where
  "polymod_step chk v =
     (let b = drop_bit 25 chk;
          chk = push_bit 5 (chk AND 0x1ffffff) XOR v
      in foldl (\<lambda>chk i. if drop_bit i b AND 1 = 1 then chk XOR gen ! i else chk) chk [0..<5])"

definition bech32Polymod :: "int list \<Rightarrow> int" where
  "bech32Polymod values = foldl polymod_step 1 values"

text \<open>
  \<^verbatim>\<open>
  func bech32HrpExpand(hrp string) []int {
      v := make([]int, 0, len(hrp)*2+1)
      for i := 0; i < len(hrp); i++ { v = append(v, int(hrp[i]>>5)) }
      v = append(v, 0)
      for i := 0; i < len(hrp); i++ { v = append(v, int(hrp[i]&31)) }
      return v
  }
  \<close>
\<close>

definition bech32HrpExpand :: "string \<Rightarrow> int list" where
  "bech32HrpExpand hrp =
     map (\<lambda>c. drop_bit 5 (of_char c)) hrp @ [0] @ map (\<lambda>c. of_char c AND 31) hrp"

text \<open>
  \<^verbatim>\<open>
  func bech32Checksum(hrp string, data []byte) []byte {
      ... integers[i] = int(b) ...
      values := append(bech32HrpExpand(hrp), integers...)
      values = append(values, []int{0, 0, 0, 0, 0, 0}...)
      polymod := bech32Polymod(values) ^ 1
      var res []byte
      for i := 0; i < 6; i++ {
          res = append(res, byte((polymod>>uint(5*(5-i)))&31))
      }
      return res
  }
  func bech32VerifyChecksum(hrp string, data []byte) bool {
      ... integers[i] = int(b) ...
      concat := append(bech32HrpExpand(hrp), integers...)
      return bech32Polymod(concat) == 1
  }
  \<close>
\<close>

definition bech32Checksum :: "string \<Rightarrow> byte list \<Rightarrow> byte list" where
  "bech32Checksum hrp data =
     (let values = bech32HrpExpand hrp @ map uint data @ [0, 0, 0, 0, 0, 0];
          polymod = bech32Polymod values XOR 1
      in map (\<lambda>i. word_of_int (drop_bit (5 * (5 - i)) polymod AND 31)) [0..<6])"

definition bech32VerifyChecksum :: "string \<Rightarrow> byte list \<Rightarrow> bool" where
  "bech32VerifyChecksum hrp data \<longleftrightarrow>
     bech32Polymod (bech32HrpExpand hrp @ map uint data) = 1"

text \<open>
  \<^verbatim>\<open>strings.IndexByte\<close> and \<^verbatim>\<open>strings.LastIndexByte\<close>: the index of the first
  (last) occurrence of the byte, or \<open>-1\<close>.
\<close>

fun IndexByte :: "string \<Rightarrow> char \<Rightarrow> int" where
  "IndexByte [] c = -1"
| "IndexByte (x # xs) c =
     (if x = c then 0 else (let r = IndexByte xs c in if r < 0 then -1 else r + 1))"

fun LastIndexByte :: "string \<Rightarrow> char \<Rightarrow> int" where
  "LastIndexByte [] c = -1"
| "LastIndexByte (x # xs) c =
     (let r = LastIndexByte xs c in if r < 0 then (if x = c then 0 else -1) else r + 1)"

text \<open>
  \<^verbatim>\<open>
  func toBytes(chars string) ([]byte, error) {
      decoded := make([]byte, 0, len(chars))
      for i := 0; i < len(chars); i++ {
          index := strings.IndexByte(charset, chars[i])
          if index < 0 { return nil, ErrNonCharsetChar(chars[i]) }
          decoded = append(decoded, byte(index))
      }
      return decoded, nil
  }
  \<close>
  \<open>toChars\<close> is the loop of \<^verbatim>\<open>Encode\<close> that writes the data part:
  \<^verbatim>\<open>
  for _, b := range data {
      if int(b) >= len(charset) { return "", ErrInvalidDataByte(b) }
      bldr.WriteByte(charset[b])
  }
  \<close>
\<close>

fun toBytes :: "string \<Rightarrow> byte list \<times> error option" where
  "toBytes [] = ([], None)"
| "toBytes (c # cs) =
     (let index = IndexByte charset c
      in if index < 0 then ([], Some (ErrNonCharsetChar c))
         else (case toBytes cs of
                 (_, Some e) \<Rightarrow> ([], Some e)
               | (decoded, None) \<Rightarrow> (word_of_int index # decoded, None)))"

fun toChars :: "byte list \<Rightarrow> string \<times> error option" where
  "toChars [] = ([], None)"
| "toChars (b # bs) =
     (if unat b \<ge> length charset then ([], Some (ErrInvalidDataByte b))
      else (case toChars bs of
              (_, Some e) \<Rightarrow> ([], Some e)
            | (result, None) \<Rightarrow> (charset ! unat b # result, None)))"

text \<open>
  \<^verbatim>\<open>ConvertBits(data, fromBits, toBits, pad)\<close>. The inner loop of the Go function,
  for one input byte \<open>b\<close> (already shifted left by \<open>8 - fromBits\<close>):
  \<^verbatim>\<open>
  for remFromBits > 0 {
      remToBits := toBits - filledBits
      toExtract := remFromBits
      if remToBits < toExtract { toExtract = remToBits }
      nextByte = (nextByte << toExtract) | (b >> (8 - toExtract))
      b = b << toExtract
      remFromBits -= toExtract
      filledBits += toExtract
      if filledBits == toBits {
          regrouped = append(regrouped, nextByte)
          filledBits = 0
          nextByte = 0
      }
  }
  \<close>
  \<open>b\<close> and \<open>nextByte\<close> are bytes, whose shifts drop the high bits; the counters are
  at most 8. The loop is entered with \<open>filledBits < toBits\<close> and keeps it (lemma
  \<open>extract_loop_filled\<close>), so that \<open>toExtract\<close> is positive; the test
  \<open>filledBits < toBits\<close> in the model's loop condition is there for the termination
  proof only.
\<close>

function extract_loop ::
  "nat \<Rightarrow> byte \<Rightarrow> nat \<Rightarrow> byte list \<times> byte \<times> nat \<Rightarrow> byte list \<times> byte \<times> nat" where
  "extract_loop toBits b remFromBits (regrouped, nextByte, filledBits) =
     (if remFromBits > 0 \<and> filledBits < toBits then
        (let remToBits = toBits - filledBits;
             toExtract = (if remToBits < remFromBits then remToBits else remFromBits);
             nextByte = push_bit toExtract nextByte OR drop_bit (8 - toExtract) b;
             b = push_bit toExtract b;
             remFromBits = remFromBits - toExtract;
             filledBits = filledBits + toExtract
         in if filledBits = toBits
            then extract_loop toBits b remFromBits (regrouped @ [nextByte], 0, 0)
            else extract_loop toBits b remFromBits (regrouped, nextByte, filledBits))
      else (regrouped, nextByte, filledBits))"
  by pat_completeness auto
termination
  by (relation "measure (\<lambda>(toBits, b, remFromBits, st). remFromBits)") auto

declare extract_loop.simps [simp del]

text \<open>
  \<^verbatim>\<open>
  func ConvertBits(data []byte, fromBits, toBits uint8, pad bool) ([]byte, error) {
      if fromBits < 1 || fromBits > 8 || toBits < 1 || toBits > 8 {
          return nil, fmt.Errorf("only bit groups between 1 and 8 allowed")
      }
      var regrouped []byte
      nextByte := byte(0)
      filledBits := uint8(0)
      for _, b := range data {
          b = b << (8 - fromBits)
          remFromBits := fromBits
          ... the inner loop ...
      }
      if pad && filledBits > 0 {
          nextByte = nextByte << (toBits - filledBits)
          regrouped = append(regrouped, nextByte)
          filledBits = 0
          nextByte = 0
      }
      if filledBits > 0 && (filledBits > 4 || nextByte != 0) {
          return nil, fmt.Errorf("invalid incomplete group")
      }
      return regrouped, nil
  }
  \<close>
\<close>

definition ConvertBits :: "byte list \<Rightarrow> nat \<Rightarrow> nat \<Rightarrow> bool \<Rightarrow> byte list \<times> error option" where
  "ConvertBits data fromBits toBits pad =
     (if fromBits < 1 \<or> fromBits > 8 \<or> toBits < 1 \<or> toBits > 8
      then ([], Some ErrInvalidBitGroups)
      else
        (let st = foldl (\<lambda>st b. extract_loop toBits (push_bit (8 - fromBits) b) fromBits st)
                    ([], 0, 0) data;
             st = (case st of (regrouped, nextByte, filledBits) \<Rightarrow>
                     if pad \<and> filledBits > 0
                     then (regrouped @ [push_bit (toBits - filledBits) nextByte], 0, 0)
                     else st)
         in case st of (regrouped, nextByte, filledBits) \<Rightarrow>
              if filledBits > 0 \<and> (filledBits > 4 \<or> nextByte \<noteq> 0)
              then ([], Some ErrInvalidIncompleteGroup)
              else (regrouped, None)))"

text \<open>
  \<^verbatim>\<open>strings.ToLower\<close>, on ASCII: the bytes \<open>A .. Z\<close> become \<open>a .. z\<close>, every other
  byte stays. \<^verbatim>\<open>Decode\<close> applies it to bytes it has checked to be in \<open>33 .. 126\<close>;
  \<^verbatim>\<open>Encode\<close> applies it to the prefix, which is taken to be ASCII.
\<close>

definition ToLower :: "string \<Rightarrow> string" where
  "ToLower s =
     map (\<lambda>c. let n = (of_char c :: nat) in if 65 \<le> n \<and> n \<le> 90 then char_of (n + 32) else c) s"

text \<open>
  \<^verbatim>\<open>
  func Encode(hrp string, data []byte) (string, error) {
      hrp = strings.ToLower(hrp)
      var bldr strings.Builder
      bldr.WriteString(hrp)
      bldr.WriteString("1")
      for _, b := range data {
          if int(b) >= len(charset) { return "", ErrInvalidDataByte(b) }
          bldr.WriteByte(charset[b])
      }
      writeBech32Checksum(hrp, data, &bldr)
      return bldr.String(), nil
  }
  \<close>
  \<^verbatim>\<open>writeBech32Checksum\<close> writes \<^verbatim>\<open>charset[b]\<close> for each of the six values of the
  checksum, computed from the lower-cased prefix.
\<close>

definition bech32_Encode :: "string \<Rightarrow> byte list \<Rightarrow> string \<times> error option" where
  "bech32_Encode hrp data =
     (let hrp = ToLower hrp
      in case toChars data of
           (_, Some err) \<Rightarrow> ([], Some err)
         | (dataChars, None) \<Rightarrow>
             (hrp @ ''1'' @ dataChars @ map (\<lambda>b. charset ! unat b) (bech32Checksum hrp data),
              None))"

text \<open>
  The first loop of \<^verbatim>\<open>DecodeNoLimit\<close>, which checks the range of every character
  and that the letters are of one case, in one pass:
  \<^verbatim>\<open>
  var hasLower, hasUpper bool
  for i := 0; i < len(bech); i++ {
      if bech[i] < 33 || bech[i] > 126 { return "", nil, ErrInvalidCharacter(bech[i]) }
      hasLower = hasLower || (bech[i] >= 97 && bech[i] <= 122)
      hasUpper = hasUpper || (bech[i] >= 65 && bech[i] <= 90)
      if hasLower && hasUpper { return "", nil, ErrMixedCase{} }
  }
  \<close>
  The result is \<open>hasUpper\<close> at the end of the loop, or the error.
\<close>

fun check_chars :: "string \<Rightarrow> bool \<Rightarrow> bool \<Rightarrow> bool \<times> error option" where
  "check_chars [] hasLower hasUpper = (hasUpper, None)"
| "check_chars (c # cs) hasLower hasUpper =
     (let n = (of_char c :: nat)
      in if n < 33 \<or> n > 126 then (False, Some (ErrInvalidCharacter c))
         else
           (let hasLower = hasLower \<or> (n \<ge> 97 \<and> n \<le> 122);
                hasUpper = hasUpper \<or> (n \<ge> 65 \<and> n \<le> 90)
            in if hasLower \<and> hasUpper then (False, Some ErrMixedCase)
               else check_chars cs hasLower hasUpper))"

text \<open>
  \<^verbatim>\<open>
  func DecodeNoLimit(bech string) (string, []byte, error) {
      if len(bech) < 8 { return "", nil, ErrInvalidLength(len(bech)) }
      ... the loop above ...
      if hasUpper { bech = strings.ToLower(bech) }
      one := strings.LastIndexByte(bech, '1')
      if one < 1 || one+7 > len(bech) { return "", nil, ErrInvalidSeparatorIndex(one) }
      hrp := bech[:one]
      data := bech[one+1:]
      decoded, err := toBytes(data)
      if err != nil { return "", nil, err }
      if !bech32VerifyChecksum(hrp, decoded) {
          ...
          return "", nil, ErrInvalidChecksum{Expected: expected, Actual: actual}
      }
      return hrp, decoded[:len(decoded)-6], nil
  }
  func Decode(bech string, limit int) (string, []byte, error) {
      if len(bech) > limit { return "", nil, ErrInvalidLength(len(bech)) }
      return DecodeNoLimit(bech)
  }
  \<close>
  \<open>ErrChecksumFailed\<close> stands for \<^verbatim>\<open>ErrInvalidChecksum\<close>, without the two checksums
  that its message prints.
\<close>

definition DecodeNoLimit :: "string \<Rightarrow> string \<times> byte list \<times> error option" where
  "DecodeNoLimit bech =
     (if length bech < 8 then ([], [], Some (ErrInvalidLength (length bech)))
      else
        (case check_chars bech False False of
           (_, Some err) \<Rightarrow> ([], [], Some err)
         | (hasUpper, None) \<Rightarrow>
             (let bech = (if hasUpper then ToLower bech else bech);
                  one = LastIndexByte bech CHR ''1''
              in if one < 1 \<or> one + 7 > int (length bech)
                 then ([], [], Some (ErrInvalidSeparatorIndex one))
                 else
                   (let hrp = take (nat one) bech;
                        data = drop (nat one + 1) bech
                    in case toBytes data of
                         (_, Some err) \<Rightarrow> ([], [], Some err)
                       | (decoded, None) \<Rightarrow>
                           if \<not> bech32VerifyChecksum hrp decoded
                           then ([], [], Some ErrChecksumFailed)
                           else (hrp, take (length decoded - 6) decoded, None)))))"

definition bech32_Decode :: "string \<Rightarrow> nat \<Rightarrow> string \<times> byte list \<times> error option" where
  "bech32_Decode bech limit =
     (if length bech > limit then ([], [], Some (ErrInvalidLength (length bech)))
      else DecodeNoLimit bech)"

section \<open>cosmos-sdk: types/bech32 and types/address.go\<close>

text \<open>
  \<^verbatim>\<open>
  func ConvertAndEncode(hrp string, data []byte) (string, error) {
      converted, err := bech32.ConvertBits(data, 8, 5, true)
      if err != nil { return "", errors.Wrap(err, "encoding bech32 failed") }
      return bech32.Encode(hrp, converted)
  }
  func DecodeAndConvert(bech string) (string, []byte, error) {
      hrp, data, err := bech32.Decode(bech, 1023)
      if err != nil { return "", nil, errors.Wrap(err, "decoding bech32 failed") }
      converted, err := bech32.ConvertBits(data, 5, 8, false)
      if err != nil { return "", nil, errors.Wrap(err, "decoding bech32 failed") }
      return hrp, converted, nil
  }
  \<close>
\<close>

definition ConvertAndEncode :: "string \<Rightarrow> byte list \<Rightarrow> string \<times> error option" where
  "ConvertAndEncode hrp data =
     (case ConvertBits data 8 5 True of
        (_, Some err) \<Rightarrow> ([], Some err)
      | (converted, None) \<Rightarrow> bech32_Encode hrp converted)"

definition DecodeAndConvert :: "string \<Rightarrow> string \<times> byte list \<times> error option" where
  "DecodeAndConvert bech =
     (case bech32_Decode bech 1023 of
        (_, _, Some err) \<Rightarrow> ([], [], Some err)
      | (hrp, data, None) \<Rightarrow>
          (case ConvertBits data 5 8 False of
             (_, Some err) \<Rightarrow> ([], [], Some err)
           | (converted, None) \<Rightarrow> (hrp, converted, None)))"

text \<open>
  \<^verbatim>\<open>
  func GetFromBech32(bech32str, prefix string) ([]byte, error) {
      if len(bech32str) == 0 { return nil, errBech32EmptyAddress }
      hrp, bz, err := bech32.DecodeAndConvert(bech32str)
      if err != nil { return nil, err }
      if hrp != prefix {
          return nil, fmt.Errorf("invalid Bech32 prefix; expected %s, got %s", prefix, hrp)
      }
      return bz, nil
  }
  \<close>
\<close>

definition GetFromBech32 :: "string \<Rightarrow> string \<Rightarrow> byte list \<times> error option" where
  "GetFromBech32 bech32str prefix =
     (if length bech32str = 0 then ([], Some ErrBech32EmptyAddress)
      else
        (case DecodeAndConvert bech32str of
           (_, _, Some err) \<Rightarrow> ([], Some err)
         | (hrp, bz, None) \<Rightarrow>
             if hrp \<noteq> prefix then ([], Some (ErrInvalidPrefix prefix hrp))
             else (bz, None)))"

text \<open>
  \<^verbatim>\<open>
  func VerifyAddressFormat(bz []byte) error {
      verifier := GetConfig().GetAddressVerifier()
      if verifier != nil { return verifier(bz) }
      if len(bz) == 0 { return errors.Wrap(ErrUnknownAddress, "addresses cannot be empty") }
      if len(bz) > address.MaxAddrLen { return errors.Wrapf(ErrUnknownAddress, ...) }
      return nil
  }
  \<close>
  No address verifier is configured; \<^verbatim>\<open>address.MaxAddrLen\<close> is 255.
\<close>

definition VerifyAddressFormat :: "byte list \<Rightarrow> error option" where
  "VerifyAddressFormat bz =
     (if length bz = 0 then Some ErrUnknownAddress
      else if length bz > 255 then Some ErrUnknownAddress
      else None)"

text \<open>
  \<^verbatim>\<open>len(strings.TrimSpace(address)) == 0\<close>: the string is made of white space only.
  White space is what \<^verbatim>\<open>unicode.IsSpace\<close> accepts, in UTF-8: the bytes 9 to 13 and
  32, and the encodings of U+0085, U+00A0, U+1680, U+2000 to U+200A, U+2028, U+2029,
  U+202F, U+205F and U+3000.
\<close>

fun only_space :: "nat list \<Rightarrow> bool" where
  "only_space [] \<longleftrightarrow> True"
| "only_space (a # rest) \<longleftrightarrow>
     (if (9 \<le> a \<and> a \<le> 13) \<or> a = 32 then only_space rest
      else (case rest of
              b # rest' \<Rightarrow>
                if a = 0xC2 \<and> (b = 0x85 \<or> b = 0xA0) then only_space rest'
                else (case rest' of
                        c # rest'' \<Rightarrow>
                          if (a = 0xE1 \<and> b = 0x9A \<and> c = 0x80)
                           \<or> (a = 0xE2 \<and> b = 0x80 \<and> ((0x80 \<le> c \<and> c \<le> 0x8A) \<or> c = 0xA8 \<or> c = 0xA9 \<or> c = 0xAF))
                           \<or> (a = 0xE2 \<and> b = 0x81 \<and> c = 0x9F)
                           \<or> (a = 0xE3 \<and> b = 0x80 \<and> c = 0x80)
                          then only_space rest''
                          else False
                      | [] \<Rightarrow> False)
            | [] \<Rightarrow> False))"

definition TrimSpace_empty :: "string \<Rightarrow> bool" where
  "TrimSpace_empty s \<longleftrightarrow> only_space (map of_char s)"

text \<open>
  \<^verbatim>\<open>
  func AccAddressFromBech32(address string) (addr AccAddress, err error) {
      if len(strings.TrimSpace(address)) == 0 {
          return AccAddress{}, errors.New("empty address string is not allowed")
      }
      bech32PrefixAccAddr := GetConfig().GetBech32AccountAddrPrefix()
      bz, err := GetFromBech32(address, bech32PrefixAccAddr)
      if err != nil { return nil, err }
      err = VerifyAddressFormat(bz)
      if err != nil { return nil, err }
      return AccAddress(bz), nil
  }
  \<close>
  The configured account prefix is the parameter \<open>prefix\<close>.
\<close>

definition sdk_AccAddressFromBech32 :: "string \<Rightarrow> string \<Rightarrow> byte list \<times> error option" where
  "sdk_AccAddressFromBech32 prefix address =
     (if TrimSpace_empty address then ([], Some ErrEmptyAddress)
      else
        (case GetFromBech32 address prefix of
           (_, Some err) \<Rightarrow> ([], Some err)
         | (bz, None) \<Rightarrow>
             (case VerifyAddressFormat bz of
                Some err \<Rightarrow> ([], Some err)
              | None \<Rightarrow> (bz, None))))"

text \<open>
  \<^verbatim>\<open>
  func (aa AccAddress) String() string {
      if aa.Empty() { return "" }
      ... (a cache of results, keyed by the address bytes) ...
      bech32Addr, err := bech32.ConvertAndEncode(GetConfig().GetBech32AccountAddrPrefix(), aa)
      if err != nil { panic(err) }
      return bech32Addr
  }
  \<close>
  \<^verbatim>\<open>ConvertAndEncode\<close> never returns an error (lemma \<open>ConvertAndEncode_no_error\<close>),
  so the panic is dead code and the model has no branch for it.
\<close>

definition AccAddress_String :: "string \<Rightarrow> byte list \<Rightarrow> string" where
  "AccAddress_String prefix aa =
     (if aa = [] then [] else fst (ConvertAndEncode prefix aa))"

text \<open>
  The libraries as api.go sees them, for the account prefix \<open>prefix\<close>, which is both
  \<^verbatim>\<open>types.Bech32PrefixAccAddr\<close> and the prefix the SDK is configured with.
\<close>

definition libraries :: "string \<Rightarrow> collaborators" where
  "libraries prefix =
     \<lparr> IsHexAddress = common_IsHexAddress,
       HexToAddress = common_HexToAddress,
       AccAddressString = AccAddress_String prefix,
       Bech32PrefixAccAddr = prefix,
       AccAddressFromBech32 = sdk_AccAddressFromBech32 prefix,
       BytesToAddress = common_BytesToAddress,
       AddressString = Address_String \<rparr>"

text \<open>
  The form of a hex address in the specification's words: the fixed prefix \<open>0x\<close>
  followed by 40 hexadecimal digits.
\<close>

definition hex_pattern :: "string \<Rightarrow> bool" where
  "hex_pattern s \<longleftrightarrow> length s = 42 \<and> take 2 s = ''0x'' \<and> list_all isHexCharacter (drop 2 s)"

text \<open>
  \<open>lower_char\<close> is what \<open>ToLower\<close> does to one character. \<open>eip55_char c d\<close>: the
  character \<open>c\<close> is what the checksum loop of \<^verbatim>\<open>checksumHex\<close> can write for the
  character \<open>d\<close>, that is \<open>d\<close> itself or, for \<open>d\<close> above \<open>9\<close>, \<open>d - 32\<close>.
\<close>

definition lower_char :: "char \<Rightarrow> char" where
  "lower_char c =
     (let n = (of_char c :: nat) in if 65 \<le> n \<and> n \<le> 90 then char_of (n + 32) else c)"

definition eip55_char :: "char \<Rightarrow> char \<Rightarrow> bool" where
  "eip55_char c d \<longleftrightarrow>
     c = d \<or> ((of_char d :: nat) > 57 \<and> c = char_of ((of_char d :: nat) - 32))"

section \<open>Facts about the libraries\<close>

lemma drop_map_nth: "drop k xs = map (\<lambda>i. xs ! i) [k..<length xs]"
  by (rule nth_equalityI) auto

lemma length_hex_Encode: "length (hex_Encode a) = 2 * length a"
  by (induction a) (simp_all add: hex_Encode_def)

lemma Address_hex_zero:
  "Address_hex (replicate 20 0) = ''0x0000000000000000000000000000000000000000''"
  by (simp add: Address_hex_def hex_Encode_def hextable_def numeral_eq_Suc)

text \<open>The checksum loop only changes letters: a digit stays as it is.\<close>

lemma checksumHex_digits:
  assumes "\<forall>c \<in> set (drop 2 (Address_hex a)). (of_char c :: nat) \<le> 57"
  shows "checksumHex a = Address_hex a"
proof -
  let ?buf = "Address_hex a"
  have "\<And>i. 2 \<le> i \<Longrightarrow> i < length ?buf \<Longrightarrow> (of_char (?buf ! i) :: nat) \<le> 57"
  proof -
    fix i assume i: "2 \<le> i" "i < length ?buf"
    then obtain j where j: "i = 2 + j" using le_Suc_ex by blast
    then have "drop 2 ?buf ! j = ?buf ! i" using i by simp
    moreover have "j < length (drop 2 ?buf)" using i j by simp
    ultimately have "?buf ! i \<in> set (drop 2 ?buf)" by (metis nth_mem)
    with assms show "(of_char (?buf ! i) :: nat) \<le> 57" by blast
  qed
  then have "checksumHex a = take 2 ?buf @ map (\<lambda>i. ?buf ! i) [2..<length ?buf]"
    unfolding checksumHex_def Let_def by (auto simp: not_less[symmetric])
  also have "\<dots> = ?buf" by (simp add: drop_map_nth[symmetric])
  finally show ?thesis .
qed

lemma zero_address_String:
  "Address_String (common_BytesToAddress []) = ''0x0000000000000000000000000000000000000000''"
proof -
  have "common_BytesToAddress [] = replicate 20 0"
    by (simp add: common_BytesToAddress_def AddressLength_def)
  moreover have "checksumHex (replicate 20 0) = Address_hex (replicate 20 0)"
    by (rule checksumHex_digits) (simp add: Address_hex_zero)
  ultimately show ?thesis by (simp add: Address_String_def Address_hex_zero)
qed

text \<open>Every error return of \<^verbatim>\<open>AccAddressFromBech32\<close> comes with no bytes.\<close>

lemma sdk_AccAddressFromBech32_error_nil:
  "snd (sdk_AccAddressFromBech32 prefix address) \<noteq> None \<Longrightarrow>
   fst (sdk_AccAddressFromBech32 prefix address) = []"
  by (auto simp: sdk_AccAddressFromBech32_def split: prod.splits option.splits if_splits)

text \<open>
  A string that starts with a prefix whose first character is no hex digit (such as
  \<open>secret\<close>) is no hex address.
\<close>

lemma prefixed_not_hex:
  assumes "prefix \<noteq> []" "\<not> isHexCharacter (hd prefix)" "HasPrefix address prefix"
  shows "\<not> common_IsHexAddress address"
proof -
  from assms obtain rest where a: "address = hd prefix # rest"
    by (cases prefix; cases address) (auto simp: HasPrefix_def)
  have "hd prefix \<noteq> CHR ''0''" using assms(2) by (auto simp: isHexCharacter_def)
  then have "\<not> has0xPrefix address" using a by (cases rest) auto
  then show ?thesis using a assms(2) by (simp add: common_IsHexAddress_def isHex_def)
qed

lemma has0xPrefix_iff:
  "has0xPrefix s \<longleftrightarrow> length s \<ge> 2 \<and> (take 2 s = ''0x'' \<or> take 2 s = ''0X'')"
  by (cases s rule: has0xPrefix.cases) auto

lemma hex_pattern_IsHexAddress: "hex_pattern s \<Longrightarrow> common_IsHexAddress s"
  by (auto simp: hex_pattern_def common_IsHexAddress_def has0xPrefix_iff isHex_def
      AddressLength_def)

subsection \<open>ConvertBits: the invariant of the loops\<close>

text \<open>
  \<open>take_bit k w = w\<close> says that the byte \<open>w\<close> is below \<open>2 ^ k\<close>. The loops keep
  \<open>filledBits\<close> below \<open>toBits\<close>, \<open>nextByte\<close> below \<open>2 ^ filledBits\<close> and every group
  they emit below \<open>2 ^ toBits\<close>; so converting to 5 bits gives values that index
  the character set, and \<^verbatim>\<open>ConvertAndEncode\<close> never fails.
\<close>

lemma extract_loop_filled:
  "filledBits < toBits \<Longrightarrow>
   snd (snd (extract_loop toBits b remFromBits (regrouped, nextByte, filledBits))) < toBits"
proof (induction remFromBits arbitrary: b regrouped nextByte filledBits rule: less_induct)
  case (less r)
  show ?case
  proof (cases "r > 0")
    case False
    then show ?thesis using less.prems by (subst extract_loop.simps) simp
  next
    case True
    define te where "te = (if toBits - filledBits < r then toBits - filledBits else r)"
    have te: "0 < te" "filledBits + te \<le> toBits" "te \<le> r" using True less.prems(1) by (auto simp: te_def)
    then have r: "r - te < r" using True by simp
    have z: "0 < toBits" using less.prems by simp
    show ?thesis
    proof (cases "filledBits + te = toBits")
      case True
      have "snd (snd (extract_loop toBits (push_bit te b) (r - te) (regrouped @ [push_bit te nextByte OR drop_bit (8 - te) b], 0, 0))) < toBits"
        by (rule less.IH[OF r z])
      then show ?thesis
        apply (subst extract_loop.simps)
        using \<open>0 < r\<close> less.prems(1) True by (simp add: Let_def te_def)
    next
      case False
      then have "filledBits + te < toBits" using te by simp
      then have "snd (snd (extract_loop toBits (push_bit te b) (r - te) (regrouped, push_bit te nextByte OR drop_bit (8 - te) b, filledBits + te))) < toBits"
        by (rule less.IH[OF r])
      then show ?thesis
        apply (subst extract_loop.simps)
        using \<open>0 < r\<close> less.prems(1) False by (simp add: Let_def te_def)
    qed
  qed
qed

lemma take_bit_id_bit: "take_bit k (w::byte) = w \<Longrightarrow> bit w n \<Longrightarrow> n < k"
  by (metis bit_take_bit_iff)

lemma step_bound:
  assumes "take_bit fb nb = nb"
  shows "take_bit (fb + te) (push_bit te nb OR drop_bit (8 - te) (b::byte)) = push_bit te nb OR drop_bit (8 - te) b"
proof (rule bit_eqI)
  fix n
  have "bit nb (n - te) \<Longrightarrow> n - te < fb" using assms by (rule take_bit_id_bit)
  moreover have "bit b (8 - te + n) \<Longrightarrow> 8 - te + n < 8" using bit_imp_le_length[of b "8 - te + n"] by simp
  ultimately show "bit (take_bit (fb + te) (push_bit te nb OR drop_bit (8 - te) b)) n = bit (push_bit te nb OR drop_bit (8 - te) b) n"
    by (auto simp: bit_simps)
qed

lemma extract_loop_inv:
  assumes "fb < t" "\<forall>g\<in>set rg. take_bit t g = g" "take_bit fb nb = nb"
  shows "case extract_loop t b r (rg, nb, fb) of (rg', nb', fb') \<Rightarrow>
           (\<forall>g\<in>set rg'. take_bit t g = g) \<and> take_bit fb' nb' = nb' \<and> fb' < t"
  using assms
proof (induction r arbitrary: b rg nb fb rule: less_induct)
  case (less r)
  show ?case
  proof (cases "r > 0")
    case False
    then show ?thesis using less.prems by (subst extract_loop.simps) simp
  next
    case True
    define te where "te = (if t - fb < r then t - fb else r)"
    define nb' where "nb' = push_bit te nb OR drop_bit (8 - te) b"
    have nb': "take_bit (fb + te) nb' = nb'" unfolding nb'_def using less.prems(3) by (rule step_bound)
    have te: "0 < te" "fb + te \<le> t" "te \<le> r" using True less.prems(1) by (auto simp: te_def)
    then have r: "r - te < r" using True by simp
    show ?thesis
    proof (cases "fb + te = t")
      case True
      have "(case extract_loop t (push_bit te b) (r - te) (rg @ [nb'], 0, 0) of (rg', nb', fb') \<Rightarrow>
           (\<forall>g\<in>set rg'. take_bit t g = g) \<and> take_bit fb' nb' = nb' \<and> fb' < t)"
        apply (rule less.IH[OF r])
        using less.prems nb' True by auto
      then show ?thesis
        apply (subst extract_loop.simps)
        using \<open>0 < r\<close> less.prems(1) True by (simp add: Let_def te_def nb'_def)
    next
      case False
      have "(case extract_loop t (push_bit te b) (r - te) (rg, nb', fb + te) of (rg', nb', fb') \<Rightarrow>
           (\<forall>g\<in>set rg'. take_bit t g = g) \<and> take_bit fb' nb' = nb' \<and> fb' < t)"
        apply (rule less.IH[OF r])
        using less.prems nb' False te by auto
      then show ?thesis
        apply (subst extract_loop.simps)
        using \<open>0 < r\<close> less.prems(1) False by (simp add: Let_def te_def nb'_def)
    qed
  qed
qed

lemma foldl_extract_inv:
  assumes "fb < t" "\<forall>g\<in>set rg. take_bit t g = g" "take_bit fb nb = nb"
  shows "case foldl (\<lambda>st b. extract_loop t (f b) r st) (rg, nb, fb) data of (rg', nb', fb') \<Rightarrow>
           (\<forall>g\<in>set rg'. take_bit t g = g) \<and> take_bit fb' nb' = nb' \<and> fb' < t"
  using assms
proof (induction data arbitrary: rg nb fb)
  case Nil
  then show ?case by simp
next
  case (Cons b data)
  obtain rg1 nb1 fb1 where e: "extract_loop t (f b) r (rg, nb, fb) = (rg1, nb1, fb1)"
    by (cases "extract_loop t (f b) r (rg, nb, fb)") auto
  with extract_loop_inv[OF Cons.prems, of "f b" r]
  have "fb1 < t" "\<forall>g\<in>set rg1. take_bit t g = g" "take_bit fb1 nb1 = nb1" by auto
  from Cons.IH[OF this] e show ?case by simp
qed

lemma length_charset: "length charset = 32"
  by (simp add: charset_def)

lemma toChars_ok: "\<forall>g\<in>set d. take_bit 5 g = g \<Longrightarrow> snd (toChars d) = None"
proof (induction d)
  case Nil
  then show ?case by simp
next
  case (Cons g d)
  have "take_bit 5 g = g" using Cons.prems by simp
  then have "unat g = take_bit 5 (unat g)" by (metis unsigned_take_bit_eq)
  then have "unat g < 32" using take_bit_nat_less_exp[of 5 "unat g"] by simp
  moreover have "snd (toChars d) = None" using Cons by simp
  then obtain dc where "toChars d = (dc, None)" by (metis prod.collapse)
  ultimately show ?case by (simp add: length_charset)
qed

lemma ConvertBits_8_5_groups:
  "snd (ConvertBits data 8 5 True) = None \<and> (\<forall>g\<in>set (fst (ConvertBits data 8 5 True)). take_bit 5 g = g)"
proof -
  define st where "st = foldl (\<lambda>st b. extract_loop 5 (push_bit (8 - 8) b) 8 st) ([], 0, 0) data"
  obtain rg nb fb where f: "st = (rg, nb, fb)"
    by (metis prod_cases3)
  have "case st of (rg', nb', fb') \<Rightarrow>
           (\<forall>g\<in>set rg'. take_bit 5 g = g) \<and> take_bit fb' nb' = (nb'::byte) \<and> fb' < 5"
    unfolding st_def by (rule foldl_extract_inv) simp_all
  with f have i: "\<forall>g\<in>set rg. take_bit 5 g = g" "take_bit fb nb = nb" "fb < 5" by auto
  have "take_bit (fb + (5 - fb)) (push_bit (5 - fb) nb OR drop_bit (8 - (5 - fb)) 0) = push_bit (5 - fb) nb OR drop_bit (8 - (5 - fb)) 0"
    using i(2) by (rule step_bound)
  then have p: "take_bit 5 (push_bit (5 - fb) nb) = push_bit (5 - fb) nb"
    using i(3) by simp
  have "ConvertBits data 8 5 True =
      (if fb > 0 then (rg @ [push_bit (5 - fb) nb], None) else (rg, None))"
    unfolding ConvertBits_def st_def[symmetric] f using i(3) by (simp add: Let_def)
  with i p show ?thesis by auto
qed

lemma ConvertAndEncode_no_error: "snd (ConvertAndEncode hrp data) = None"
proof -
  obtain c where c: "ConvertBits data 8 5 True = (c, None)" "\<forall>g\<in>set c. take_bit 5 g = g"
    using ConvertBits_8_5_groups[of data] by (cases "ConvertBits data 8 5 True") auto
  then have "snd (toChars c) = None" by (simp add: toChars_ok)
  then obtain dc where "toChars c = (dc, None)" by (metis prod.collapse)
  then show ?thesis using c(1)
    by (simp add: ConvertAndEncode_def bech32_Encode_def Let_def)
qed

subsection \<open>Hex addresses\<close>

text \<open>The strings that \<^verbatim>\<open>common.IsHexAddress\<close> accepts.\<close>

lemma common_IsHexAddress_forms:
  "common_IsHexAddress s \<longleftrightarrow>
     hex_pattern s \<or>
     (length s = 42 \<and> take 2 s = ''0X'' \<and> list_all isHexCharacter (drop 2 s)) \<or>
     (length s = 40 \<and> list_all isHexCharacter s)"
proof (cases "has0xPrefix s")
  case True
  then obtain rest where a: "s = CHR ''0'' # CHR ''x'' # rest \<or> s = CHR ''0'' # CHR ''X'' # rest"
    by (cases s rule: has0xPrefix.cases) auto
  then have "\<not> list_all isHexCharacter s"
    by (auto simp: isHexCharacter_def)
  with True a show ?thesis
    by (auto simp: common_IsHexAddress_def isHex_def AddressLength_def hex_pattern_def)
next
  case False
  then have "\<not> (length s = 42 \<and> (take 2 s = ''0x'' \<or> take 2 s = ''0X''))"
    by (auto simp: has0xPrefix_iff)
  with False show ?thesis
    by (auto simp: common_IsHexAddress_def isHex_def AddressLength_def hex_pattern_def)
qed

subsection \<open>The checksummed hex form\<close>

lemma hi_nibble: "unat (drop_bit 4 (v::byte)) < 16"
proof -
  have "unat (drop_bit 4 v) = unat v div 2 ^ 4" by (simp add: drop_bit_eq_div unat_div)
  moreover have "unat v < 2 ^ 8" using unsigned_less[of v] by simp
  ultimately show ?thesis by simp
qed

lemma lo_nibble: "unat ((v::byte) AND 0x0f) < 16"
proof -
  have "unat (v AND 15) \<le> unat (15 :: byte)"
    by (rule word_and_le1 [THEN word_le_nat_alt [THEN iffD1]])
  then show ?thesis by simp
qed

lemma lo_nibble_take_bit: "(v::byte) AND 0x0f = take_bit 4 v"
proof -
  have "(0x0f::byte) = mask 4" by (simp add: mask_eq_exp_minus_1)
  then show ?thesis by (simp add: take_bit_eq_mask)
qed

lemma nibbles_join: "push_bit 4 (drop_bit 4 (v::byte)) OR (v AND 0x0f) = v"
  unfolding lo_nibble_take_bit by (rule bit_eqI) (auto simp: bit_simps)

lemma hextable_cases:
  assumes "n < 16"
  obtains "n = 0" | "n = 1" | "n = 2" | "n = 3" | "n = 4" | "n = 5" | "n = 6" | "n = 7"
    | "n = 8" | "n = 9" | "n = 10" | "n = 11" | "n = 12" | "n = 13" | "n = 14" | "n = (15::nat)"
  using assms by atomize_elim arith

lemma char_of_upper:
  "char_of (65::nat) = CHR ''A''" "char_of (66::nat) = CHR ''B''" "char_of (67::nat) = CHR ''C''"
  "char_of (68::nat) = CHR ''D''" "char_of (69::nat) = CHR ''E''" "char_of (70::nat) = CHR ''F''"
  "char_of (97::nat) = CHR ''a''" "char_of (98::nat) = CHR ''b''" "char_of (99::nat) = CHR ''c''"
  "char_of (100::nat) = CHR ''d''" "char_of (101::nat) = CHR ''e''" "char_of (102::nat) = CHR ''f''"
  by code_simp+

lemma lower_checksum_char:
  assumes "n < 16"
  shows "lower_char (if (of_char (hextable ! n) :: nat) > 57 \<and> P
                     then char_of ((of_char (hextable ! n) :: nat) - 32) else hextable ! n) = hextable ! n"
  using assms by (cases n rule: hextable_cases) (simp_all add: hextable_def lower_char_def char_of_upper)

lemma fromHexChar_checksum_char:
  assumes "n < 16"
  shows "fromHexChar (if (of_char (hextable ! n) :: nat) > 57 \<and> P
                     then char_of ((of_char (hextable ! n) :: nat) - 32) else hextable ! n) = Some (of_nat n)"
  using assms by (cases n rule: hextable_cases) (simp_all add: hextable_def fromHexChar_def char_of_upper)

lemma isHexCharacter_checksum_char:
  assumes "n < 16"
  shows "isHexCharacter (if (of_char (hextable ! n) :: nat) > 57 \<and> P
                     then char_of ((of_char (hextable ! n) :: nat) - 32) else hextable ! n)"
  using assms by (cases n rule: hextable_cases) (simp_all add: hextable_def isHexCharacter_def char_of_upper)

lemma eip55_char_hextable:
  assumes "n < 16" "eip55_char c (hextable ! n)"
  shows "lower_char c = hextable ! n" "fromHexChar c = Some (of_nat n)" "isHexCharacter c"
proof -
  from assms(2) obtain P where c: "c = (if (of_char (hextable ! n) :: nat) > 57 \<and> P
      then char_of ((of_char (hextable ! n) :: nat) - 32) else hextable ! n)"
    unfolding eip55_char_def by (metis (full_types))
  show "lower_char c = hextable ! n" unfolding c using assms(1) by (rule lower_checksum_char)
  show "fromHexChar c = Some (of_nat n)" unfolding c using assms(1) by (rule fromHexChar_checksum_char)
  show "isHexCharacter c" unfolding c using assms(1) by (rule isHexCharacter_checksum_char)
qed

lemma hex_Encode_Cons:
  "hex_Encode (v # a) = hextable ! unat (drop_bit 4 v) # hextable ! unat (v AND 0x0f) # hex_Encode a"
  by (simp add: hex_Encode_def)

lemma hex_Encode_Nil: "hex_Encode [] = []"
  by (simp add: hex_Encode_def)

lemma variant_lower:
  "list_all2 eip55_char cs (hex_Encode a) \<Longrightarrow> map lower_char cs = hex_Encode a"
proof (induction a arbitrary: cs)
  case Nil
  then show ?case by (simp add: hex_Encode_Nil)
next
  case (Cons v a)
  then obtain c1 c2 cs' where cs: "cs = c1 # c2 # cs'"
    and c1: "eip55_char c1 (hextable ! unat (drop_bit 4 v))"
    and c2: "eip55_char c2 (hextable ! unat (v AND 0x0f))"
    and r: "list_all2 eip55_char cs' (hex_Encode a)"
    by (auto simp: hex_Encode_Cons list_all2_Cons2)
  show ?case
    using Cons.IH[OF r] eip55_char_hextable(1)[OF hi_nibble c1] eip55_char_hextable(1)[OF lo_nibble c2]
    by (simp add: cs hex_Encode_Cons)
qed

lemma variant_isHex:
  "list_all2 eip55_char cs (hex_Encode a) \<Longrightarrow> list_all isHexCharacter cs"
proof (induction a arbitrary: cs)
  case Nil
  then show ?case by (simp add: hex_Encode_Nil)
next
  case (Cons v a)
  then obtain c1 c2 cs' where cs: "cs = c1 # c2 # cs'"
    and c1: "eip55_char c1 (hextable ! unat (drop_bit 4 v))"
    and c2: "eip55_char c2 (hextable ! unat (v AND 0x0f))"
    and r: "list_all2 eip55_char cs' (hex_Encode a)"
    by (auto simp: hex_Encode_Cons list_all2_Cons2)
  show ?case
    using Cons.IH[OF r] eip55_char_hextable(3)[OF hi_nibble c1] eip55_char_hextable(3)[OF lo_nibble c2]
    by (simp add: cs)
qed

lemma variant_decode:
  "list_all2 eip55_char cs (hex_Encode a) \<Longrightarrow> hex_DecodeString cs = (a, None)"
proof (induction a arbitrary: cs)
  case Nil
  then show ?case by (simp add: hex_Encode_Nil)
next
  case (Cons v a)
  then obtain c1 c2 cs' where cs: "cs = c1 # c2 # cs'"
    and c1: "eip55_char c1 (hextable ! unat (drop_bit 4 v))"
    and c2: "eip55_char c2 (hextable ! unat (v AND 0x0f))"
    and r: "list_all2 eip55_char cs' (hex_Encode a)"
    by (auto simp: hex_Encode_Cons list_all2_Cons2)
  have "push_bit 4 (of_nat (unat (drop_bit 4 v))) OR of_nat (unat (v AND 0x0f)) = v"
    using nibbles_join[of v] by simp
  then show ?case
    using Cons.IH[OF r] eip55_char_hextable(2)[OF hi_nibble c1] eip55_char_hextable(2)[OF lo_nibble c2]
    by (simp add: cs)
qed

lemma map_upt_shift: "map G [k..<n + k] = map (\<lambda>i. G (i + k)) [0..<n]"
  by (simp only: map_add_upt[symmetric] map_map o_def)

lemma checksumHex_form:
  "\<exists>cs. checksumHex a = ''0x'' @ cs \<and> list_all2 eip55_char cs (hex_Encode a)"
proof -
  let ?buf = "Address_hex a"
  let ?n = "length (hex_Encode a)"
  define hash where "hash = Keccak256 (map of_char (drop 2 ?buf))"
  define G where "G = (\<lambda>i. let hashByte = hash ! ((i - 2) div 2);
                       hashByte = (if i mod 2 = 0 then drop_bit 4 hashByte else hashByte AND 0xf)
                   in if (of_char (?buf ! i) :: nat) > 57 \<and> hashByte > 7
                      then char_of ((of_char (?buf ! i) :: nat) - 32) else ?buf ! i)"
  have g: "checksumHex a = take 2 ?buf @ map G [2..<length ?buf]"
    unfolding checksumHex_def G_def hash_def Let_def by (rule refl)
  have G: "eip55_char (G i) (?buf ! i)" for i
    by (simp add: G_def eip55_char_def Let_def)
  have l: "length ?buf = ?n + 2" by (simp add: Address_hex_def)
  have "map G [2..<?n + 2] = map (\<lambda>i. G (i + 2)) [0..<?n]"
    by (rule map_upt_shift)
  moreover have "list_all2 eip55_char (map (\<lambda>i. G (i + 2)) [0..<?n]) (hex_Encode a)"
    unfolding list_all2_conv_all_nth
  proof (intro conjI allI impI)
    show "length (map (\<lambda>i. G (i + 2)) [0..<?n]) = ?n" by simp
    fix i assume "i < length (map (\<lambda>i. G (i + 2)) [0..<?n])"
    then have i: "i < ?n" by simp
    have "?buf ! (i + 2) = hex_Encode a ! i" by (simp add: Address_hex_def)
    with G[of "i + 2"] i show "eip55_char (map (\<lambda>i. G (i + 2)) [0..<?n] ! i) (hex_Encode a ! i)"
      by simp
  qed
  ultimately have "list_all2 eip55_char (map G [2..<?n + 2]) (hex_Encode a)" by simp
  moreover have "checksumHex a = ''0x'' @ map G [2..<?n + 2]"
    unfolding g l by (simp add: Address_hex_def)
  ultimately show ?thesis by blast
qed

lemma ToLower_map: "ToLower s = map lower_char s"
  by (simp add: ToLower_def lower_char_def)

lemma ToLower_checksumHex: "ToLower (checksumHex a) = Address_hex a"
proof -
  obtain cs where cs: "checksumHex a = ''0x'' @ cs" "list_all2 eip55_char cs (hex_Encode a)"
    using checksumHex_form by blast
  show ?thesis using variant_lower[OF cs(2)]
    by (simp add: cs(1) ToLower_map Address_hex_def lower_char_def)
qed

lemma BytesToAddress_id: "length p = 20 \<Longrightarrow> common_BytesToAddress p = p"
  by (simp add: common_BytesToAddress_def AddressLength_def)

lemma hex_pattern_checksumHex: "length a = 20 \<Longrightarrow> hex_pattern (checksumHex a)"
proof -
  assume a: "length a = 20"
  obtain cs where cs: "checksumHex a = ''0x'' @ cs" "list_all2 eip55_char cs (hex_Encode a)"
    using checksumHex_form by blast
  have "length cs = 40" using list_all2_lengthD[OF cs(2)] a by (simp add: length_hex_Encode)
  then show ?thesis using variant_isHex[OF cs(2)] by (simp add: hex_pattern_def cs(1))
qed

lemma HexToAddress_checksumHex: "length a = 20 \<Longrightarrow> common_HexToAddress (checksumHex a) = a"
proof -
  assume a: "length a = 20"
  obtain cs where cs: "checksumHex a = ''0x'' @ cs" "list_all2 eip55_char cs (hex_Encode a)"
    using checksumHex_form by blast
  have l: "length cs = 40" using list_all2_lengthD[OF cs(2)] a by (simp add: length_hex_Encode)
  show ?thesis using variant_decode[OF cs(2)] l a
    by (simp add: common_HexToAddress_def FromHex_def Hex2Bytes_def cs(1) BytesToAddress_id)
qed

lemma upt_0_1: "[0..<1] = [0]"
  by simp

subsection \<open>Keccak-256 of the hex digits of one address, evaluated\<close>

text \<open>
  The address is \<open>5aaeb6053f3e94c9b9a09f33669435e7ef1beaed\<close>. Its 40 hex digits fill one
  block of the sponge; the 24 rounds of the permutation are evaluated four at a time.
\<close>

lemma upt_0_5: "[0..<5] = [0, 1, 2, 3, 4]"
  by code_simp

lemma upt_0_25:
  "[0..<25] = [0, 1, 2, 3, 4, 5, 6, 7, 8, 9, 10, 11, 12, 13, 14, 15, 16, 17, 18, 19, 20, 21, 22,
              23, 24]"
  by code_simp

lemmas keccak_round_eval =
  keccak_round_def iota_def chi_def rho_pi_def theta_def rotc_def RotateLeft64_def Let_def
  upt_0_5 upt_0_25

lemma keccak_rounds_1:
  "keccak_round
     (keccak_round
       (keccak_round
         (keccak_round
           [0x3530366265616135, 0x3963343965336633, 0x3333663930613962, 0x3765353334393636,
            0x6465616562316665, 0x0000000000000001, 0x0000000000000000, 0x0000000000000000,
            0x0000000000000000, 0x0000000000000000, 0x0000000000000000, 0x0000000000000000,
            0x0000000000000000, 0x0000000000000000, 0x0000000000000000, 0x0000000000000000,
            0x8000000000000000, 0x0000000000000000, 0x0000000000000000, 0x0000000000000000,
            0x0000000000000000, 0x0000000000000000, 0x0000000000000000, 0x0000000000000000,
            0x0000000000000000]
           0x0000000000000001)
         0x0000000000008082)
       0x800000000000808A)
     0x8000000080008000 =
   [0x2C26CABE078782CF, 0xED3EE47F4F2EE9ED, 0x1CB25952A2A7AFED, 0xF6752D5D4FCCCC68,
    0x144591315DB6E748, 0x15A5D60E1D4480BE, 0x49B2D67643474E39, 0x49ACE2E7D4C73F21,
    0x91DFF9C09A7F5181, 0x49DB56CDFCD1E78F, 0xB2FFC13B43B4AD6F, 0xE077F09D2E858AC2,
    0x1F0A870DB0D84EE2, 0x82C6A2FA0E500037, 0x2336FDB0DB4FFD4C, 0x54C60E5F76BA5688,
    0xDA2ECF887AD6376F, 0xD6CD0F30FF1416F6, 0xFAEFABFF38A557DC, 0x315CC4179E0AE5E4,
    0x356C4B94765FF45B, 0xB4F688D3C5A353D5, 0x17CDEFB2AA18E268, 0x234374D952C59B07,
    0x8968E6F985A698B4]"
  by (simp add: keccak_round_eval)

lemma keccak_rounds_2:
  "keccak_round
     (keccak_round
       (keccak_round
         (keccak_round
           [0x2C26CABE078782CF, 0xED3EE47F4F2EE9ED, 0x1CB25952A2A7AFED, 0xF6752D5D4FCCCC68,
            0x144591315DB6E748, 0x15A5D60E1D4480BE, 0x49B2D67643474E39, 0x49ACE2E7D4C73F21,
            0x91DFF9C09A7F5181, 0x49DB56CDFCD1E78F, 0xB2FFC13B43B4AD6F, 0xE077F09D2E858AC2,
            0x1F0A870DB0D84EE2, 0x82C6A2FA0E500037, 0x2336FDB0DB4FFD4C, 0x54C60E5F76BA5688,
            0xDA2ECF887AD6376F, 0xD6CD0F30FF1416F6, 0xFAEFABFF38A557DC, 0x315CC4179E0AE5E4,
            0x356C4B94765FF45B, 0xB4F688D3C5A353D5, 0x17CDEFB2AA18E268, 0x234374D952C59B07,
            0x8968E6F985A698B4]
           0x000000000000808B)
         0x0000000080000001)
       0x8000000080008081)
     0x8000000000008009 =
   [0x8191263DB7FD68B6, 0x320FA9CEDE2C9BAC, 0x17899F1B136C0AEA, 0x2472D538AF917A59,
    0x6037DF44D10DB6AC, 0xD378DCA5C0AF8AB4, 0x17F08A931B90C37F, 0xD7CB273A0286D3B8,
    0x8E3AFF26686358C5, 0x1E9B7F58A0BEAA8F, 0x1F86051C95E0218C, 0x78DDCCF0B4EBEE8A,
    0x6407EB737948411B, 0x62DD13729758C1C9, 0xDC904463F95FCE19, 0x08CF8080600FA627,
    0x7F886B467AC06492, 0x796B64CC7B8D8054, 0xED0DFD07CDED76DA, 0x67B89EA561E0E439,
    0x8819ECE3DE56CF63, 0xBA3C3B2D106619D5, 0xCF49552B665E1D3D, 0x27BA0FADAE730B1B,
    0x47F76597B12589A2]"
  by (simp add: keccak_round_eval)

lemma keccak_rounds_3:
  "keccak_round
     (keccak_round
       (keccak_round
         (keccak_round
           [0x8191263DB7FD68B6, 0x320FA9CEDE2C9BAC, 0x17899F1B136C0AEA, 0x2472D538AF917A59,
            0x6037DF44D10DB6AC, 0xD378DCA5C0AF8AB4, 0x17F08A931B90C37F, 0xD7CB273A0286D3B8,
            0x8E3AFF26686358C5, 0x1E9B7F58A0BEAA8F, 0x1F86051C95E0218C, 0x78DDCCF0B4EBEE8A,
            0x6407EB737948411B, 0x62DD13729758C1C9, 0xDC904463F95FCE19, 0x08CF8080600FA627,
            0x7F886B467AC06492, 0x796B64CC7B8D8054, 0xED0DFD07CDED76DA, 0x67B89EA561E0E439,
            0x8819ECE3DE56CF63, 0xBA3C3B2D106619D5, 0xCF49552B665E1D3D, 0x27BA0FADAE730B1B,
            0x47F76597B12589A2]
           0x000000000000008A)
         0x0000000000000088)
       0x0000000080008009)
     0x000000008000000A =
   [0x30E6EACB4AA3FAE7, 0x95A760CC784DF224, 0xC962A2A47117636B, 0x9F7BD1EFFA23A409,
    0xFCBA289751DC0D8E, 0xF188EF01CA8EC704, 0x6E32123E7E60F09B, 0x9BD8DA206F383989,
    0xEC63104F31A5D562, 0x40F370710BDC38D7, 0xFB05A7A06DD4602D, 0xD802420B261CFD66,
    0x089922D3464886FA, 0xD8416F159D7CA4F8, 0x7D10F1630BB7C8DD, 0xF7B2CD55663E592D,
    0x2EB34A8C12901C0B, 0xB336C55E5530E849, 0x1CF4BA77A3C35469, 0xB9A1EAE2CF1322B7,
    0x60288144AF6BA73E, 0x9A9CAAF9C546F298, 0xD6D373EDFBD3BB7E, 0xB159469EEBA6A8F7,
    0x422B61412C6B878C]"
  by (simp add: keccak_round_eval)

lemma keccak_rounds_4:
  "keccak_round
     (keccak_round
       (keccak_round
         (keccak_round
           [0x30E6EACB4AA3FAE7, 0x95A760CC784DF224, 0xC962A2A47117636B, 0x9F7BD1EFFA23A409,
            0xFCBA289751DC0D8E, 0xF188EF01CA8EC704, 0x6E32123E7E60F09B, 0x9BD8DA206F383989,
            0xEC63104F31A5D562, 0x40F370710BDC38D7, 0xFB05A7A06DD4602D, 0xD802420B261CFD66,
            0x089922D3464886FA, 0xD8416F159D7CA4F8, 0x7D10F1630BB7C8DD, 0xF7B2CD55663E592D,
            0x2EB34A8C12901C0B, 0xB336C55E5530E849, 0x1CF4BA77A3C35469, 0xB9A1EAE2CF1322B7,
            0x60288144AF6BA73E, 0x9A9CAAF9C546F298, 0xD6D373EDFBD3BB7E, 0xB159469EEBA6A8F7,
            0x422B61412C6B878C]
           0x000000008000808B)
         0x800000000000008B)
       0x8000000000008089)
     0x8000000000008003 =
   [0x857BA5AC57DBA678, 0x977631B05E6B8595, 0xDCAA398B1CAD93E6, 0x7F519FA708C109E4,
    0x041523D37553BBC7, 0x7CDF73C96E742F42, 0xFC55F2F6F5A705A5, 0x1DCE54965FCF2155,
    0xDDFEEFBF2E61C75A, 0x5A880A0A98784741, 0x1B99C4504741EB1F, 0x0F7F2C02B9C72DBF,
    0x5DC6574D1F219E70, 0x0DA88B54D48EC7F3, 0x5CC4FAF7C651F6EE, 0xCE432FCE0BBD1CC2,
    0xBF8F9C124E8D0829, 0xBDE4CCC95811D29F, 0x14BD313508CA32E8, 0x0E12E35FFD5AA4A2,
    0x360386F4339E07E5, 0xEC4492A574209BF5, 0xC3F59756D2CA852B, 0x4E62AC6B77A1AF1C,
    0xEAC6A394A492B81E]"
  by (simp add: keccak_round_eval)

lemma keccak_rounds_5:
  "keccak_round
     (keccak_round
       (keccak_round
         (keccak_round
           [0x857BA5AC57DBA678, 0x977631B05E6B8595, 0xDCAA398B1CAD93E6, 0x7F519FA708C109E4,
            0x041523D37553BBC7, 0x7CDF73C96E742F42, 0xFC55F2F6F5A705A5, 0x1DCE54965FCF2155,
            0xDDFEEFBF2E61C75A, 0x5A880A0A98784741, 0x1B99C4504741EB1F, 0x0F7F2C02B9C72DBF,
            0x5DC6574D1F219E70, 0x0DA88B54D48EC7F3, 0x5CC4FAF7C651F6EE, 0xCE432FCE0BBD1CC2,
            0xBF8F9C124E8D0829, 0xBDE4CCC95811D29F, 0x14BD313508CA32E8, 0x0E12E35FFD5AA4A2,
            0x360386F4339E07E5, 0xEC4492A574209BF5, 0xC3F59756D2CA852B, 0x4E62AC6B77A1AF1C,
            0xEAC6A394A492B81E]
           0x8000000000008002)
         0x8000000000000080)
       0x000000000000800A)
     0x800000008000000A =
   [0xA332D7C0D189B68F, 0x97C1A617E0C480A0, 0x7AEACD5BB31EFDC5, 0x3C5D561992E5EBE6,
    0x81EF7982B312726D, 0x9A9BEA99F10107B6, 0x5AF154123074C24B, 0x57DD4146461E51DE,
    0xF8EA13158D70A1E1, 0x29E05D560196D48A, 0xD94C6E8010669F9E, 0xC869BA16B9B4ADB1,
    0x9AFB25EFB49883D7, 0x36A856B44D8E2D68, 0xE3C455801C4DD375, 0x57CDC4110A85F8B2,
    0x063367C598AF4A39, 0x312F0CCFA77D7536, 0xB8CABF7E3B56941E, 0x885F394D05E89D40,
    0x5622B947ABF9C58D, 0x08B4A290FF2D8F5F, 0xFBD199292872382E, 0x5E5562BD51C07A25,
    0x3F4F2B5CBDD0A548]"
  by (simp add: keccak_round_eval)

lemma keccak_rounds_6:
  "keccak_round
     (keccak_round
       (keccak_round
         (keccak_round
           [0xA332D7C0D189B68F, 0x97C1A617E0C480A0, 0x7AEACD5BB31EFDC5, 0x3C5D561992E5EBE6,
            0x81EF7982B312726D, 0x9A9BEA99F10107B6, 0x5AF154123074C24B, 0x57DD4146461E51DE,
            0xF8EA13158D70A1E1, 0x29E05D560196D48A, 0xD94C6E8010669F9E, 0xC869BA16B9B4ADB1,
            0x9AFB25EFB49883D7, 0x36A856B44D8E2D68, 0xE3C455801C4DD375, 0x57CDC4110A85F8B2,
            0x063367C598AF4A39, 0x312F0CCFA77D7536, 0xB8CABF7E3B56941E, 0x885F394D05E89D40,
            0x5622B947ABF9C58D, 0x08B4A290FF2D8F5F, 0xFBD199292872382E, 0x5E5562BD51C07A25,
            0x3F4F2B5CBDD0A548]
           0x8000000080008081)
         0x8000000000008080)
       0x0000000080000001)
     0x8000000080008008 =
   [0xDBC6FDE80C6585D3, 0xDB1448D391A0E37E, 0x21E5FA9F2118CEC4, 0xE507D73440FFEF82,
    0x9BD54D4E621E36F6, 0x2C86810C34EF4A55, 0x4AC51833124D036F, 0xD203A9BDA159F0E8,
    0xB74187006FDB6B7A, 0x620794D79A7FC243, 0xCAD9FA5BBD8E179D, 0x3117DE08998E8A4E,
    0x1FA2A41440F1EC3B, 0xEA2D35D425AAA195, 0xDB26959975C4C2EA, 0xD28C23B39584F9A5,
    0x010F009B23C96A85, 0x5C8CB26921CD2244, 0xBD435B6317DBC9E7, 0x03391DBE9E5420A0,
    0xB42FCCD0BA0CE10C, 0x8DE1FF6D624C7EAD, 0xFA698D2A8DD46E15, 0x817E517AA0CE92B2,
    0x791A816EDA146443]"
  by (simp add: keccak_round_eval)

lemma keccakF1600_example:
  "keccakF1600
     [0x3530366265616135, 0x3963343965336633, 0x3333663930613962, 0x3765353334393636,
     0x6465616562316665, 0x0000000000000001, 0x0000000000000000, 0x0000000000000000,
     0x0000000000000000, 0x0000000000000000, 0x0000000000000000, 0x0000000000000000,
     0x0000000000000000, 0x0000000000000000, 0x0000000000000000, 0x0000000000000000,
     0x8000000000000000, 0x0000000000000000, 0x0000000000000000, 0x0000000000000000,
     0x0000000000000000, 0x0000000000000000, 0x0000000000000000, 0x0000000000000000,
     0x0000000000000000] =
   [0xDBC6FDE80C6585D3, 0xDB1448D391A0E37E, 0x21E5FA9F2118CEC4, 0xE507D73440FFEF82,
    0x9BD54D4E621E36F6, 0x2C86810C34EF4A55, 0x4AC51833124D036F, 0xD203A9BDA159F0E8,
    0xB74187006FDB6B7A, 0x620794D79A7FC243, 0xCAD9FA5BBD8E179D, 0x3117DE08998E8A4E,
    0x1FA2A41440F1EC3B, 0xEA2D35D425AAA195, 0xDB26959975C4C2EA, 0xD28C23B39584F9A5,
    0x010F009B23C96A85, 0x5C8CB26921CD2244, 0xBD435B6317DBC9E7, 0x03391DBE9E5420A0,
    0xB42FCCD0BA0CE10C, 0x8DE1FF6D624C7EAD, 0xFA698D2A8DD46E15, 0x817E517AA0CE92B2,
    0x791A816EDA146443]"
  unfolding keccakF1600_def RC_def foldl.simps
  by (simp only: keccak_rounds_1 keccak_rounds_2 keccak_rounds_3 keccak_rounds_4 keccak_rounds_5
      keccak_rounds_6)

lemma Keccak256_example:
  "Keccak256 (map of_char ''5aaeb6053f3e94c9b9a09f33669435e7ef1beaed'') =
   [0xd3, 0x85, 0x65, 0x0c, 0xe8, 0xfd, 0xc6, 0xdb, 0x7e, 0xe3, 0xa0, 0x91, 0xd3, 0x48,
    0x14, 0xdb, 0xc4, 0xce, 0x18, 0x21, 0x9f, 0xfa, 0xe5, 0x21, 0x82, 0xef, 0xff,
    0x40, 0x34, 0xd7, 0x07, 0xe5]"
proof -
  let ?m = "keccak_pad (map of_char ''5aaeb6053f3e94c9b9a09f33669435e7ef1beaed'')"
  have l: "length ?m div rate = 1"
    by code_simp
  have x: "xorIn (replicate 25 0) (take rate (drop (rate * 0) ?m)) =
     [0x3530366265616135, 0x3963343965336633, 0x3333663930613962, 0x3765353334393636,
     0x6465616562316665, 0x0000000000000001, 0x0000000000000000, 0x0000000000000000,
     0x0000000000000000, 0x0000000000000000, 0x0000000000000000, 0x0000000000000000,
     0x0000000000000000, 0x0000000000000000, 0x0000000000000000, 0x0000000000000000,
     0x8000000000000000, 0x0000000000000000, 0x0000000000000000, 0x0000000000000000,
     0x0000000000000000, 0x0000000000000000, 0x0000000000000000, 0x0000000000000000,
     0x0000000000000000]"
    by code_simp
  have s: "concat (map store64 (take 4
     [0xDBC6FDE80C6585D3, 0xDB1448D391A0E37E, 0x21E5FA9F2118CEC4, 0xE507D73440FFEF82,
     0x9BD54D4E621E36F6, 0x2C86810C34EF4A55, 0x4AC51833124D036F, 0xD203A9BDA159F0E8,
     0xB74187006FDB6B7A, 0x620794D79A7FC243, 0xCAD9FA5BBD8E179D, 0x3117DE08998E8A4E,
     0x1FA2A41440F1EC3B, 0xEA2D35D425AAA195, 0xDB26959975C4C2EA, 0xD28C23B39584F9A5,
     0x010F009B23C96A85, 0x5C8CB26921CD2244, 0xBD435B6317DBC9E7, 0x03391DBE9E5420A0,
     0xB42FCCD0BA0CE10C, 0x8DE1FF6D624C7EAD, 0xFA698D2A8DD46E15, 0x817E517AA0CE92B2,
     0x791A816EDA146443])) =
   [0xd3, 0x85, 0x65, 0x0c, 0xe8, 0xfd, 0xc6, 0xdb, 0x7e, 0xe3, 0xa0, 0x91, 0xd3, 0x48,
    0x14, 0xdb, 0xc4, 0xce, 0x18, 0x21, 0x9f, 0xfa, 0xe5, 0x21, 0x82, 0xef, 0xff,
    0x40, 0x34, 0xd7, 0x07, 0xe5]"
    by code_simp
  show ?thesis
    unfolding Keccak256_def Let_def l
    by (simp only: upt_0_1 foldl.simps x keccakF1600_example s)
qed

lemma checksumHex_example:
  "checksumHex [0x5a, 0xae, 0xb6, 0x05, 0x3f, 0x3e, 0x94, 0xc9, 0xb9, 0xa0, 0x9f, 0x33, 0x66, 0x94,
     0x35, 0xe7, 0xef, 0x1b, 0xea, 0xed] = ''0x5aAeb6053F3E94C9b9A09f33669435E7Ef1BeAed''"
proof -
  have h: "Address_hex [0x5a, 0xae, 0xb6, 0x05, 0x3f, 0x3e, 0x94, 0xc9, 0xb9, 0xa0, 0x9f, 0x33,
      0x66, 0x94, 0x35, 0xe7, 0xef, 0x1b, 0xea, 0xed] =
    ''0x5aaeb6053f3e94c9b9a09f33669435e7ef1beaed''"
    by code_simp
  have d: "drop 2 ''0x5aaeb6053f3e94c9b9a09f33669435e7ef1beaed'' =
    ''5aaeb6053f3e94c9b9a09f33669435e7ef1beaed''"
    by simp
  show ?thesis
    unfolding checksumHex_def Let_def h d Keccak256_example
    by code_simp
qed

section \<open>Control flow of ConvertAddress\<close>

lemma ConvertAddress_by_case:
  "ConvertAddress L address =
     (case case_taken L address of
        HexCase \<Rightarrow> (AccAddressString L (HexToAddress L address), None)
      | Bech32Case \<Rightarrow>
          (AddressString L (BytesToAddress L (fst (AccAddressFromBech32 L address))), None)
      | DefaultCase \<Rightarrow> ([], Some (Errorf ''expected a valid hex or bech32 address'')))"
  by (simp add: ConvertAddress_def case_taken_def Let_def split_beta)

text \<open>
  The default case, for any library functions: an input that fails both tests of the
  switch gets the empty string and the error of \<^verbatim>\<open>fmt.Errorf\<close>.
\<close>

lemma ConvertAddress_default_case:
  assumes "\<not> IsHexAddress L address"
    and "\<not> HasPrefix address (Bech32PrefixAccAddr L)"
  shows "ConvertAddress L address =
           ([], Some (Errorf ''expected a valid hex or bech32 address''))"
  using assms by (simp add: ConvertAddress_def)

text \<open>
  C7. The claim: an input that is neither of the form \<open>0x\<close> plus 40 hex digits nor
  starts with the bech32 prefix gets the empty string and the error. 40 hex digits
  with no \<open>0x\<close> are neither, and are converted: \<^verbatim>\<open>common.IsHexAddress\<close> accepts them.
\<close>

theorem bare_hex_digits_converted:
  "\<not> hex_pattern ''1234567890123456789012345678901234567890'' \<and>
   \<not> HasPrefix ''1234567890123456789012345678901234567890'' ''secret'' \<and>
   ConvertAddress (libraries ''secret'') ''1234567890123456789012345678901234567890'' =
     (''secret1zg69v7yszg69v7yszg69v7yszg69v7ysh74rag'', None)"
proof -
  let ?a = "''1234567890123456789012345678901234567890''"
  have "common_IsHexAddress ?a" by code_simp
  moreover have "AccAddress_String ''secret'' (common_HexToAddress ?a) =
      ''secret1zg69v7yszg69v7yszg69v7yszg69v7ysh74rag''"
    by code_simp
  ultimately have "ConvertAddress (libraries ''secret'') ?a =
      (''secret1zg69v7yszg69v7yszg69v7yszg69v7ysh74rag'', None)"
    by (simp add: ConvertAddress_def libraries_def)
  then show ?thesis by (simp add: hex_pattern_def HasPrefix_def)
qed

text \<open>
  C7, amended. An input that is not 40 hex digits, alone or after \<open>0x\<close> or \<open>0X\<close>, and
  that does not start with the bech32 prefix gets the empty string and the error of
  \<^verbatim>\<open>fmt.Errorf("expected a valid hex or bech32 address")\<close>.
\<close>

theorem ConvertAddress_rejects:
  assumes "\<not> hex_pattern address"
    and "\<not> (length address = 42 \<and> take 2 address = ''0X'' \<and>
             list_all isHexCharacter (drop 2 address))"
    and "\<not> (length address = 40 \<and> list_all isHexCharacter address)"
    and "\<not> HasPrefix address prefix"
  shows "ConvertAddress (libraries prefix) address =
           ([], Some (Errorf ''expected a valid hex or bech32 address''))"
proof -
  have "\<not> IsHexAddress (libraries prefix) address"
    using assms(1-3) by (simp add: libraries_def common_IsHexAddress_forms)
  moreover have "\<not> HasPrefix address (Bech32PrefixAccAddr (libraries prefix))"
    using assms(4) by (simp add: libraries_def)
  ultimately show ?thesis by (rule ConvertAddress_default_case)
qed

theorem ConvertAddress_rejects_witness:
  "\<not> hex_pattern ''not-an-address'' \<and>
   \<not> (length ''not-an-address'' = 42 \<and> take 2 ''not-an-address'' = ''0X'' \<and>
       list_all isHexCharacter (drop 2 ''not-an-address'')) \<and>
   \<not> (length ''not-an-address'' = 40 \<and> list_all isHexCharacter ''not-an-address'') \<and>
   \<not> HasPrefix ''not-an-address'' ''secret'' \<and>
   ConvertAddress (libraries ''secret'') ''not-an-address'' =
     ([], Some (Errorf ''expected a valid hex or bech32 address''))"
proof -
  have h: "\<not> hex_pattern ''not-an-address''"
    "\<not> (length ''not-an-address'' = 42 \<and> take 2 ''not-an-address'' = ''0X'' \<and>
        list_all isHexCharacter (drop 2 ''not-an-address''))"
    "\<not> (length ''not-an-address'' = 40 \<and> list_all isHexCharacter ''not-an-address'')"
    "\<not> HasPrefix ''not-an-address'' ''secret''"
    by (simp_all add: hex_pattern_def HasPrefix_def)
  from ConvertAddress_rejects [OF h] h show ?thesis by simp
qed

text \<open>
  C2. An input that starts with the bech32 prefix gets a nil error: the error of
  \<^verbatim>\<open>sdk.AccAddressFromBech32\<close> is assigned to \<^verbatim>\<open>_\<close>. The function returns an error
  exactly when the input is neither a hex address nor starts with the prefix, and that
  error is the one of the default case.
\<close>

theorem ConvertAddress_error_only_default:
  "(HasPrefix address (Bech32PrefixAccAddr L) \<longrightarrow> snd (ConvertAddress L address) = None) \<and>
   (snd (ConvertAddress L address) \<noteq> None \<longleftrightarrow>
      \<not> IsHexAddress L address \<and> \<not> HasPrefix address (Bech32PrefixAccAddr L)) \<and>
   (snd (ConvertAddress L address) = None \<or>
    snd (ConvertAddress L address) = Some (Errorf ''expected a valid hex or bech32 address''))"
  by (simp add: ConvertAddress_def Let_def split_beta)

theorem ConvertAddress_error_only_default_witness:
  "HasPrefix ''secret1'' (Bech32PrefixAccAddr (libraries ''secret'')) \<and>
   snd (AccAddressFromBech32 (libraries ''secret'') ''secret1'') = Some (ErrInvalidLength 7) \<and>
   snd (ConvertAddress (libraries ''secret'') ''secret1'') = None"
proof -
  have p: "HasPrefix ''secret1'' (Bech32PrefixAccAddr (libraries ''secret''))"
    by (simp add: libraries_def HasPrefix_def)
  have "sdk_AccAddressFromBech32 ''secret'' ''secret1'' = ([], Some (ErrInvalidLength 7))"
    by code_simp
  then have "snd (AccAddressFromBech32 (libraries ''secret'') ''secret1'') = Some (ErrInvalidLength 7)"
    by (simp add: libraries_def)
  with p ConvertAddress_error_only_default [of "''secret1''" "libraries ''secret''"]
  show ?thesis by blast
qed

text \<open>
  C9. The hex case is the first case of the switch: an input that
  \<^verbatim>\<open>common.IsHexAddress\<close> accepts takes it, whether or not it also starts with the
  bech32 prefix. The bech32 case runs only when the hex test fails, the default case
  only when both tests fail.
\<close>

theorem hex_case_first:
  "(IsHexAddress L address \<longrightarrow>
      case_taken L address = HexCase \<and>
      ConvertAddress L address = (AccAddressString L (HexToAddress L address), None)) \<and>
   (case_taken L address = Bech32Case \<longleftrightarrow>
      \<not> IsHexAddress L address \<and> HasPrefix address (Bech32PrefixAccAddr L)) \<and>
   (case_taken L address = DefaultCase \<longleftrightarrow>
      \<not> IsHexAddress L address \<and> \<not> HasPrefix address (Bech32PrefixAccAddr L))"
  by (simp add: ConvertAddress_def case_taken_def)

theorem hex_case_first_witness:
  "hex_pattern ''0x1234567890123456789012345678901234567890'' \<and>
   HasPrefix ''0x1234567890123456789012345678901234567890''
     (Bech32PrefixAccAddr (libraries ''0x12'')) \<and>
   case_taken (libraries ''0x12'') ''0x1234567890123456789012345678901234567890'' = HexCase \<and>
   ConvertAddress (libraries ''0x12'') ''0x1234567890123456789012345678901234567890'' =
     (''0x121zg69v7yszg69v7yszg69v7yszg69v7ysgkdw0e'', None)"
proof -
  let ?a = "''0x1234567890123456789012345678901234567890''"
  have h: "hex_pattern ?a" by code_simp
  then have "IsHexAddress (libraries ''0x12'') ?a"
    by (simp add: libraries_def hex_pattern_IsHexAddress)
  moreover have "HasPrefix ?a (Bech32PrefixAccAddr (libraries ''0x12''))"
    by (simp add: libraries_def HasPrefix_def)
  moreover have "AccAddress_String ''0x12'' (common_HexToAddress ?a) =
      ''0x121zg69v7yszg69v7yszg69v7yszg69v7ysgkdw0e''"
    by code_simp
  then have "AccAddressString (libraries ''0x12'') (HexToAddress (libraries ''0x12'') ?a) =
      ''0x121zg69v7yszg69v7yszg69v7yszg69v7ysgkdw0e''"
    by (simp add: libraries_def)
  ultimately show ?thesis
    using h hex_case_first [of "libraries ''0x12''" ?a] by simp
qed

text \<open>
  C1. The claim: a prefixed input whose bech32 decoding fails makes ConvertAddress return
  the decoder's error. The code discards that error. At the input below, a bech32
  address of prefix \<open>secret\<close> with its last character changed,
  \<^verbatim>\<open>sdk.AccAddressFromBech32\<close> fails on the checksum, and ConvertAddress returns the
  zero address with a nil error.
\<close>

theorem decode_error_discarded:
  "HasPrefix ''secret1t2htvpfl862vnwdqnuekd9p4ulh3h6hd4j2wuq'' ''secret'' \<and>
   sdk_AccAddressFromBech32 ''secret'' ''secret1t2htvpfl862vnwdqnuekd9p4ulh3h6hd4j2wuq'' =
     ([], Some ErrChecksumFailed) \<and>
   ConvertAddress (libraries ''secret'') ''secret1t2htvpfl862vnwdqnuekd9p4ulh3h6hd4j2wuq'' =
     (''0x0000000000000000000000000000000000000000'', None)"
proof -
  let ?a = "''secret1t2htvpfl862vnwdqnuekd9p4ulh3h6hd4j2wuq''"
  have p: "HasPrefix ?a ''secret''" by (simp add: HasPrefix_def)
  have d: "sdk_AccAddressFromBech32 ''secret'' ?a = ([], Some ErrChecksumFailed)"
    by code_simp
  have "\<not> common_IsHexAddress ?a"
    by (rule prefixed_not_hex [OF _ _ p]) (simp_all add: isHexCharacter_def)
  with p d show ?thesis
    by (simp add: ConvertAddress_def libraries_def zero_address_String)
qed

text \<open>
  C3. For a prefix whose first character is no hex digit: an input that starts with
  the prefix and that \<^verbatim>\<open>sdk.AccAddressFromBech32\<close> rejects (it then returns no bytes)
  is converted to the zero address, \<open>0x\<close> and forty zeros, with a nil error.
\<close>

theorem failed_decode_gives_zero_address:
  assumes "prefix \<noteq> []" and "\<not> isHexCharacter (hd prefix)"
    and "HasPrefix address prefix"
    and "snd (sdk_AccAddressFromBech32 prefix address) \<noteq> None"
  shows "ConvertAddress (libraries prefix) address =
           (''0x0000000000000000000000000000000000000000'', None)"
proof -
  have "\<not> common_IsHexAddress address"
    using assms(1-3) by (rule prefixed_not_hex)
  moreover have "fst (sdk_AccAddressFromBech32 prefix address) = []"
    using assms(4) by (rule sdk_AccAddressFromBech32_error_nil)
  ultimately show ?thesis
    using assms(3)
    by (simp add: ConvertAddress_def libraries_def split_beta zero_address_String)
qed

theorem failed_decode_gives_zero_address_witness:
  "''secret'' \<noteq> [] \<and> \<not> isHexCharacter (hd ''secret'') \<and> HasPrefix ''secret1'' ''secret'' \<and>
   sdk_AccAddressFromBech32 ''secret'' ''secret1'' = ([], Some (ErrInvalidLength 7)) \<and>
   ConvertAddress (libraries ''secret'') ''secret1'' =
     (''0x0000000000000000000000000000000000000000'', None)"
proof -
  have d: "sdk_AccAddressFromBech32 ''secret'' ''secret1'' = ([], Some (ErrInvalidLength 7))"
    by code_simp
  have h: "''secret'' \<noteq> []" "\<not> isHexCharacter (hd ''secret'')" "HasPrefix ''secret1'' ''secret''"
    by (simp_all add: isHexCharacter_def HasPrefix_def)
  have "snd (sdk_AccAddressFromBech32 ''secret'' ''secret1'') \<noteq> None"
    using d by simp
  from failed_decode_gives_zero_address [OF h this] h d show ?thesis by simp
qed

text \<open>
  C5. The claim: an input of the bech32 case that decodes to 20 bytes is answered with
  \<open>0x\<close> and 40 lower-case hex digits. \<^verbatim>\<open>Address.String\<close> is the EIP-55 form, which
  writes some of the letters in upper case: the address below comes back as
  \<open>0x5aAeb6053F3E94C9b9A09f33669435E7Ef1BeAed\<close>, and its lower-case hex form is
  \<open>0x5aaeb6053f3e94c9b9a09f33669435e7ef1beaed\<close>.
\<close>

theorem bech32_case_gives_upper_case_letters:
  "case_taken (libraries ''secret'') ''secret1t2htvpfl862vnwdqnuekd9p4ulh3h6hd4j2wup'' = Bech32Case \<and>
   sdk_AccAddressFromBech32 ''secret'' ''secret1t2htvpfl862vnwdqnuekd9p4ulh3h6hd4j2wup'' =
     ([0x5a, 0xae, 0xb6, 0x05, 0x3f, 0x3e, 0x94, 0xc9, 0xb9, 0xa0, 0x9f, 0x33, 0x66, 0x94, 0x35,
       0xe7, 0xef, 0x1b, 0xea, 0xed], None) \<and>
   ConvertAddress (libraries ''secret'') ''secret1t2htvpfl862vnwdqnuekd9p4ulh3h6hd4j2wup'' =
     (''0x5aAeb6053F3E94C9b9A09f33669435E7Ef1BeAed'', None) \<and>
   ''0x'' @ hex_Encode [0x5a, 0xae, 0xb6, 0x05, 0x3f, 0x3e, 0x94, 0xc9, 0xb9, 0xa0, 0x9f, 0x33,
       0x66, 0x94, 0x35, 0xe7, 0xef, 0x1b, 0xea, 0xed] =
     ''0x5aaeb6053f3e94c9b9a09f33669435e7ef1beaed'' \<and>
   ''0x5aAeb6053F3E94C9b9A09f33669435E7Ef1BeAed'' \<noteq> ''0x5aaeb6053f3e94c9b9a09f33669435e7ef1beaed''"
proof -
  let ?x = "''secret1t2htvpfl862vnwdqnuekd9p4ulh3h6hd4j2wup''"
  let ?p = "[0x5a, 0xae, 0xb6, 0x05, 0x3f, 0x3e, 0x94, 0xc9, 0xb9, 0xa0, 0x9f, 0x33, 0x66, 0x94,
             0x35, 0xe7, 0xef, 0x1b, 0xea, 0xed] :: byte list"
  have c: "case_taken (libraries ''secret'') ?x = Bech32Case"
    by code_simp
  have d: "sdk_AccAddressFromBech32 ''secret'' ?x = (?p, None)"
    by code_simp
  have h: "''0x'' @ hex_Encode ?p = ''0x5aaeb6053f3e94c9b9a09f33669435e7ef1beaed''"
    by code_simp
  have "ConvertAddress (libraries ''secret'') ?x = (Address_String (common_BytesToAddress ?p), None)"
    using c d by (simp add: ConvertAddress_by_case libraries_def)
  then have "ConvertAddress (libraries ''secret'') ?x =
      (''0x5aAeb6053F3E94C9b9A09f33669435E7Ef1BeAed'', None)"
    by (simp add: BytesToAddress_id Address_String_def checksumHex_example)
  with c d h show ?thesis by simp
qed

text \<open>
  C5, amended. An input of the bech32 case that decodes to a payload of 20 bytes is
  answered with the EIP-55 form of the payload: \<open>0x\<close> and the 40 hex digits of the
  payload, each letter in lower or in upper case. Lower-casing the answer gives \<open>0x\<close>
  and the 40 lower-case hex digits of the payload.
\<close>

theorem bech32_case_result:
  assumes "case_taken (libraries prefix) address = Bech32Case"
    and "sdk_AccAddressFromBech32 prefix address = (p, None)"
    and "length p = 20"
  shows "ConvertAddress (libraries prefix) address = (checksumHex p, None) \<and>
         hex_pattern (checksumHex p) \<and>
         ToLower (checksumHex p) = ''0x'' @ hex_Encode p"
proof -
  have "ConvertAddress (libraries prefix) address = (checksumHex p, None)"
    using assms
    by (simp add: ConvertAddress_by_case libraries_def BytesToAddress_id Address_String_def)
  moreover have "hex_pattern (checksumHex p)"
    using assms(3) by (rule hex_pattern_checksumHex)
  moreover have "ToLower (checksumHex p) = ''0x'' @ hex_Encode p"
    by (simp add: ToLower_checksumHex Address_hex_def)
  ultimately show ?thesis by simp
qed

theorem bech32_case_result_witness:
  "case_taken (libraries ''secret'') ''secret1zg69v7yszg69v7yszg69v7yszg69v7ysh74rag'' = Bech32Case \<and>
   sdk_AccAddressFromBech32 ''secret'' ''secret1zg69v7yszg69v7yszg69v7yszg69v7ysh74rag'' =
     ([0x12, 0x34, 0x56, 0x78, 0x90, 0x12, 0x34, 0x56, 0x78, 0x90, 0x12, 0x34, 0x56, 0x78, 0x90,
       0x12, 0x34, 0x56, 0x78, 0x90], None) \<and>
   ConvertAddress (libraries ''secret'') ''secret1zg69v7yszg69v7yszg69v7yszg69v7ysh74rag'' =
     (''0x1234567890123456789012345678901234567890'', None)"
proof -
  let ?x = "''secret1zg69v7yszg69v7yszg69v7yszg69v7ysh74rag''"
  let ?p = "[0x12, 0x34, 0x56, 0x78, 0x90, 0x12, 0x34, 0x56, 0x78, 0x90, 0x12, 0x34, 0x56, 0x78,
             0x90, 0x12, 0x34, 0x56, 0x78, 0x90] :: byte list"
  have c: "case_taken (libraries ''secret'') ?x = Bech32Case"
    by code_simp
  have d: "sdk_AccAddressFromBech32 ''secret'' ?x = (?p, None)"
    by code_simp
  have l: "length ?p = 20"
    by simp
  have h: "Address_hex ?p = ''0x1234567890123456789012345678901234567890''"
    by code_simp
  have "checksumHex ?p = Address_hex ?p"
    by (rule checksumHex_digits) (simp add: h)
  with bech32_case_result [OF c d l] c d h show ?thesis by simp
qed

text \<open>
  C6. The claim: the hex case is taken exactly by the strings \<open>0x\<close> plus 40 hex digits.
  \<^verbatim>\<open>common.IsHexAddress\<close> strips \<open>0x\<close> or \<open>0X\<close> only if it is there: 40 hex digits
  with no prefix take the hex case too.
\<close>

theorem hex_case_without_0x:
  "case_taken (libraries ''secret'') ''1234567890123456789012345678901234567890'' = HexCase \<and>
   \<not> hex_pattern ''1234567890123456789012345678901234567890''"
  by (simp add: case_taken_def libraries_def common_IsHexAddress_def isHex_def
      isHexCharacter_def AddressLength_def hex_pattern_def)

text \<open>
  C6, amended. The hex case is taken exactly by the strings that are 40 hex digits
  (of either case), alone or after \<open>0x\<close> or \<open>0X\<close>.
\<close>

theorem hex_case_iff:
  "case_taken (libraries prefix) address = HexCase \<longleftrightarrow>
     hex_pattern address \<or>
     (length address = 42 \<and> take 2 address = ''0X'' \<and> list_all isHexCharacter (drop 2 address)) \<or>
     (length address = 40 \<and> list_all isHexCharacter address)"
proof (cases "has0xPrefix address")
  case True
  then obtain rest where a: "address = CHR ''0'' # CHR ''x'' # rest \<or> address = CHR ''0'' # CHR ''X'' # rest"
    by (cases address rule: has0xPrefix.cases) auto
  then have "\<not> list_all isHexCharacter address"
    by (auto simp: isHexCharacter_def)
  with True a show ?thesis
    by (auto simp: case_taken_def libraries_def common_IsHexAddress_def isHex_def
        AddressLength_def hex_pattern_def)
next
  case False
  then have "\<not> (length address = 42 \<and> (take 2 address = ''0x'' \<or> take 2 address = ''0X''))"
    by (auto simp: has0xPrefix_iff)
  with False show ?thesis
    by (auto simp: case_taken_def libraries_def common_IsHexAddress_def isHex_def
        AddressLength_def hex_pattern_def)
qed

end
